theory Spec2Isabelle
  imports Complex_Main
begin

section \<open>Python values\<close>

text \<open>
  The entry tree handed to \<^verbatim>\<open>load_settings\<close> is an untyped Python value, and the
  walker inspects it with \<^verbatim>\<open>len\<close>, indexing and \<^verbatim>\<open>isinstance\<close>. The values
  covered here are \<^verbatim>\<open>None\<close>, \<^verbatim>\<open>Ellipsis\<close>, booleans, integers, finite floats
  (the real number a double stands for), strings, tuples, lists, and the host's settings
  objects as returned by \<^verbatim>\<open>sublime.load_settings(name)\<close> (a handle on the named
  settings file). Tuples are immutable, so a tree of tuples is finite and acyclic.
  The interpreter's resource limits (its recursion limit, memory) are not modelled.
\<close>

datatype pyval =
    PNone
  | PEllipsis
  | PBool bool
  | PInt int
  | PFloat real
  | PStr string
  | PTuple "pyval list"
  | PList "pyval list"
  | PSettings string

datatype pytype =
  NoneType | EllipsisType | BoolType | IntType | FloatType | StrType | TupleType | ListType
  | SettingsType

fun type_of :: "pyval \<Rightarrow> pytype" where
  "type_of PNone = NoneType"
| "type_of PEllipsis = EllipsisType"
| "type_of (PBool b) = BoolType"
| "type_of (PInt i) = IntType"
| "type_of (PFloat r) = FloatType"
| "type_of (PStr cs) = StrType"
| "type_of (PTuple xs) = TupleType"
| "type_of (PList xs) = ListType"
| "type_of (PSettings f) = SettingsType"

text \<open>
  The exceptions that the modelled code can raise. \<open>Bad_setting_entry t v\<close> is the
  \<^verbatim>\<open>TypeError\<close> raised by the walker itself, whose message is formatted from
  \<^verbatim>\<open>type(entry)\<close> and \<^verbatim>\<open>pformat(entry)\<close>; the other type errors are raised by
  the interpreter: \<^verbatim>\<open>len\<close> of an unsized object, indexing, a call with the wrong
  number of arguments, a call of a value that is not callable, unpacking a
  non-iterable, arithmetic on a non-number, \<^verbatim>\<open>setattr\<close> with a non-string name, and
  \<^verbatim>\<open>setattr\<close> of \<^verbatim>\<open>__class__\<close> or \<^verbatim>\<open>__dict__\<close> to a value that is no class
  or dictionary.
\<close>

datatype type_error =
    Bad_setting_entry pytype pyval
  | No_len pytype
  | Not_subscriptable pytype
  | Wrong_arguments string nat
  | Not_callable pytype
  | Not_iterable pytype
  | Bad_operand pytype
  | Attribute_name pytype
  | Bad_attribute_value string pytype

datatype error =
    TypeError type_error
  | AttributeError string
  | ValueError
  | IndexError
  | OverflowError

section \<open>Callbacks, host and bound object\<close>

text \<open>
  The closures and bound methods that the mixin hands to the host:
  \<^item> \<open>Loader f t a sp\<close> is \<^verbatim>\<open>_loader\<close> of \<^verbatim>\<open>load_settings\<close>, closed over the
    settings file name, the resolved tree and the two flags;
  \<^item> \<open>Process_entry e\<close> is \<^verbatim>\<open>lambda: process_setting_entry(entry)\<close>, closed over
    the bound method that \<^verbatim>\<open>__reload_settings\<close> read before the walk;
  \<^item> \<open>Update_handler t i sp\<close> is \<^verbatim>\<open>update_handler\<close> of \<^verbatim>\<open>__reload_settings\<close>,
    closed over its three parameters;
  \<^item> \<open>Reload_settings_method\<close> is the bound method \<^verbatim>\<open>self.__reload_settings\<close>;
  \<^item> \<open>Instance_value v\<close> is a value that the instance dictionary held under the name
    of a method when the method was looked up on \<^verbatim>\<open>self\<close>.
\<close>

datatype callback =
    Loader string pyval bool bool
  | Process_entry pyval
  | Update_handler pyval bool bool
  | Reload_settings_method
  | Instance_value pyval

text \<open>
  The state: the instance dictionary of the bound object (every attribute that
  \<^verbatim>\<open>setattr\<close> or an assignment to \<^verbatim>\<open>self.x\<close> writes, \<^verbatim>\<open>_settings_obj\<close> and
  \<^verbatim>\<open>_settings_update_time\<close> included: they share one namespace with the setting
  attributes), the class attribute \<^verbatim>\<open>setting_entries\<close>, the global
  \<^verbatim>\<open>API_READY\<close>, and the host: the contents of each settings file, the calls to
  \<^verbatim>\<open>add_on_change\<close> (settings file, token, callback) and to
  \<^verbatim>\<open>sublime.set_timeout\<close> (callback, delay), in the order they were made, and the
  rounding of the machine's float arithmetic (the float that stands for a real result).
  An attribute is looked up in the instance dictionary first and on the class after
  it, so an entry of the dictionary under the name of a method shadows the method.
\<close>

record state =
  attrs :: "string \<rightharpoonup> pyval"
  setting_entries :: pyval
  api_ready :: bool
  stores :: "string \<Rightarrow> (pyval \<rightharpoonup> pyval)"
  on_change :: "(string \<times> pyval \<times> callback) list"
  timeouts :: "(callback \<times> nat) list"
  float_round :: "real \<Rightarrow> real"

type_synonym outcome = "error option \<times> state"

text \<open>Modelled from the spec: the host's \<^verbatim>\<open>store.get(key, default)\<close>, which is not part
  of the repository: the value stored under the key, the default when there is none.\<close>

definition store_get :: "(pyval \<rightharpoonup> pyval) \<Rightarrow> pyval \<Rightarrow> pyval \<Rightarrow> pyval" where
  "store_get store key dflt = (case store key of None \<Rightarrow> dflt | Some v \<Rightarrow> v)"

text \<open>Modelled from the spec: the host's \<^verbatim>\<open>store.add_on_change(token, callback)\<close> and
  \<^verbatim>\<open>schedule(callback, delay)\<close>, recorded as calls.\<close>

definition add_on_change :: "string \<Rightarrow> pyval \<Rightarrow> callback \<Rightarrow> state \<Rightarrow> state" where
  "add_on_change f token cb s = s\<lparr>on_change := on_change s @ [(f, token, cb)]\<rparr>"

definition set_timeout :: "callback \<Rightarrow> nat \<Rightarrow> state \<Rightarrow> state" where
  "set_timeout cb delay s = s\<lparr>timeouts := timeouts s @ [(cb, delay)]\<rparr>"

section \<open>Python primitives used by the mixin\<close>

definition py_len :: "pyval \<Rightarrow> error + nat" where
  "py_len v =
     (case v of
        PStr cs \<Rightarrow> Inr (length cs)
      | PTuple xs \<Rightarrow> Inr (length xs)
      | PList xs \<Rightarrow> Inr (length xs)
      | _ \<Rightarrow> Inl (TypeError (No_len (type_of v))))"

text \<open>The items of a sequence, as indexing, iteration and unpacking see them: a string
  yields its one-character strings.\<close>

definition items :: "pyval \<Rightarrow> pyval list option" where
  "items v =
     (case v of
        PStr cs \<Rightarrow> Some (map (\<lambda>c. PStr [c]) cs)
      | PTuple xs \<Rightarrow> Some xs
      | PList xs \<Rightarrow> Some xs
      | _ \<Rightarrow> None)"

definition is_str :: "pyval \<Rightarrow> bool" where
  "is_str v = (case v of PStr cs \<Rightarrow> True | _ \<Rightarrow> False)"

text \<open>\<^verbatim>\<open>entry[0]\<close>.\<close>

definition py_index0 :: "pyval \<Rightarrow> error + pyval" where
  "py_index0 entry =
     (case items entry of
        None \<Rightarrow> Inl (TypeError (Not_subscriptable (type_of entry)))
      | Some [] \<Rightarrow> Inl IndexError
      | Some (x # xs) \<Rightarrow> Inr x)"

text \<open>\<^verbatim>\<open>attribute, key, default = entry\<close>.\<close>

definition unpack3 :: "pyval \<Rightarrow> error + pyval \<times> pyval \<times> pyval" where
  "unpack3 entry =
     (case items entry of
        None \<Rightarrow> Inl (TypeError (Not_iterable (type_of entry)))
      | Some [a, k, d] \<Rightarrow> Inr (a, k, d)
      | Some _ \<Rightarrow> Inl ValueError)"

text \<open>
  \<^verbatim>\<open>setattr(self, attribute, value)\<close> on an ordinary instance. Three names are data
  descriptors of every such object and do not reach the instance dictionary:
  \<^verbatim>\<open>__class__\<close> accepts a class only and \<^verbatim>\<open>__dict__\<close> a dictionary only (no value
  of \<open>pyval\<close> is either, so both raise a \<^verbatim>\<open>TypeError\<close>), and \<^verbatim>\<open>__weakref__\<close> is
  not writable (an \<^verbatim>\<open>AttributeError\<close>). \<open>assignable\<close> holds of every other name.
\<close>

definition assignable :: "string \<Rightarrow> bool" where
  "assignable a = (a \<noteq> ''__class__'' \<and> a \<noteq> ''__dict__'' \<and> a \<noteq> ''__weakref__'')"

definition setattr :: "pyval \<Rightarrow> pyval \<Rightarrow> state \<Rightarrow> error + state" where
  "setattr attribute v s =
     (case attribute of
        PStr a \<Rightarrow>
          if a = ''__class__'' \<or> a = ''__dict__'' then
            Inl (TypeError (Bad_attribute_value a (type_of v)))
          else if a = ''__weakref__'' then Inl (AttributeError a)
          else Inr (s\<lparr>attrs := (attrs s)(a \<mapsto> v)\<rparr>)
      | _ \<Rightarrow> Inl (TypeError (Attribute_name (type_of attribute))))"

text \<open>\<^verbatim>\<open>settings_obj.get(key, default)\<close> on whatever value \<^verbatim>\<open>_settings_obj\<close> holds:
  only a settings object has the method.\<close>

definition settings_get :: "pyval \<Rightarrow> pyval \<Rightarrow> pyval \<Rightarrow> state \<Rightarrow> error + pyval" where
  "settings_get settings_obj key dflt s =
     (case settings_obj of
        PSettings f \<Rightarrow> Inr (store_get (stores s f) key dflt)
      | _ \<Rightarrow> Inl (AttributeError ''get''))"

text \<open>
  Calling \<^verbatim>\<open>self.name(...)\<close> where the class defines the method \<open>name\<close>: the
  instance dictionary is consulted first, and a value found there is called in place
  of the method. No value of \<open>pyval\<close> is callable, so that call raises a
  \<^verbatim>\<open>TypeError\<close>. The result is the error, or \<open>None\<close> when the method is reached.
  Inside the class the two private methods go by their mangled names.
\<close>

definition shadowed :: "string \<Rightarrow> state \<Rightarrow> error option" where
  "shadowed name s =
     (case attrs s name of
        None \<Rightarrow> None
      | Some v \<Rightarrow> Some (TypeError (Not_callable (type_of v))))"

definition reload_settings_name :: string where
  "reload_settings_name = ''_DeclarativeSettingsMixin__reload_settings''"

definition delay_reload_settings_name :: string where
  "delay_reload_settings_name = ''_DeclarativeSettingsMixin__delay_reload_settings''"

section \<open>The mixin\<close>

subsection \<open>\<^verbatim>\<open>process_setting_entry\<close>\<close>

definition process_setting_entry :: "pyval \<Rightarrow> state \<Rightarrow> error + pyval \<times> state" where
  "process_setting_entry entry s =
     (case attrs s ''_settings_obj'' of
        None \<Rightarrow> Inl (AttributeError ''_settings_obj'')
      | Some settings_obj \<Rightarrow>
          (case unpack3 entry of
             Inl e \<Rightarrow> Inl e
           | Inr (attribute, key0, dflt) \<Rightarrow>
               (let key = (if key0 = PStr [] \<or> key0 = PEllipsis then attribute else key0) in
                if settings_obj = PNone then
                  (case setattr attribute dflt s of
                     Inl e \<Rightarrow> Inl e
                   | Inr s' \<Rightarrow> Inr (key, s'))
                else
                  (case settings_get settings_obj key dflt s of
                     Inl e \<Rightarrow> Inl e
                   | Inr v \<Rightarrow>
                       (case setattr attribute v s of
                          Inl e \<Rightarrow> Inl e
                        | Inr s' \<Rightarrow> Inr (key, s'))))))"

subsection \<open>\<^verbatim>\<open>__reload_settings\<close>\<close>

text \<open>\<^verbatim>\<open>len(entry) == 3 and isinstance(entry[0], str)\<close>: \<^verbatim>\<open>len\<close> raises on an unsized
  value; \<^verbatim>\<open>and\<close> evaluates the index only when the length is 3.\<close>

definition is_setting_entry :: "pyval \<Rightarrow> error + bool" where
  "is_setting_entry entry =
     (case py_len entry of
        Inl e \<Rightarrow> Inl e
      | Inr n \<Rightarrow>
          if n = 3 then
            (case py_index0 entry of
               Inl e \<Rightarrow> Inl e
             | Inr x \<Rightarrow> Inr (is_str x))
          else Inr False)"

text \<open>
  The variables that \<^verbatim>\<open>_load_entry\<close> closes over: the parameters of
  \<^verbatim>\<open>__reload_settings\<close> and its two locals, both read once before the walk:
  \<^verbatim>\<open>settings_obj\<close>, and \<^verbatim>\<open>process_setting_entry = self.process_setting_entry\<close>,
  kept here as what the instance dictionary held under that name (\<open>None\<close>: nothing,
  the local is the method of the class).
\<close>

record walk =
  entry_tree :: pyval
  install_update_handler :: bool
  sparse :: bool
  settings_obj :: pyval
  process_entry_attr :: "pyval option"

text \<open>The leaf branch of \<^verbatim>\<open>_load_entry\<close>: the local \<^verbatim>\<open>process_setting_entry\<close> is
  called, and then the handler is registered.\<close>

definition load_leaf :: "walk \<Rightarrow> pyval \<Rightarrow> state \<Rightarrow> outcome" where
  "load_leaf w entry s =
     (case process_entry_attr w of
        Some v \<Rightarrow> (Some (TypeError (Not_callable (type_of v))), s)
      | None \<Rightarrow>
          (case process_setting_entry entry s of
             Inl e \<Rightarrow> (Some e, s)
           | Inr (processed_key, s') \<Rightarrow>
               if install_update_handler w then
                 (let update_handler =
                    (if sparse w then Process_entry entry
                     else Update_handler (entry_tree w) (install_update_handler w) (sparse w))
                  in case settings_obj w of
                       PSettings f \<Rightarrow> (None, add_on_change f entry update_handler s')
                     | _ \<Rightarrow> (Some (AttributeError ''add_on_change''), s'))
               else (None, s')))"

fun load_entry :: "walk \<Rightarrow> pyval \<Rightarrow> state \<Rightarrow> outcome"
  and load_entries :: "walk \<Rightarrow> pyval list \<Rightarrow> state \<Rightarrow> outcome" where
  "load_entry w entry s =
     (case is_setting_entry entry of
        Inl e \<Rightarrow> (Some e, s)
      | Inr True \<Rightarrow> load_leaf w entry s
      | Inr False \<Rightarrow>
          (case entry of
             PTuple sub_entries \<Rightarrow> load_entries w sub_entries s
           | _ \<Rightarrow> (Some (TypeError (Bad_setting_entry (type_of entry) entry)), s)))"
| "load_entries w [] s = (None, s)"
| "load_entries w (sub_entry # rest) s =
     (case load_entry w sub_entry s of
        (Some e, s') \<Rightarrow> (Some e, s')
      | (None, s') \<Rightarrow> load_entries w rest s')"

definition reload_settings :: "pyval \<Rightarrow> bool \<Rightarrow> bool \<Rightarrow> state \<Rightarrow> outcome" where
  "reload_settings tree install sp s =
     (case attrs s ''_settings_obj'' of
        None \<Rightarrow> (Some (AttributeError ''_settings_obj''), s)
      | Some so \<Rightarrow>
          load_entry \<lparr>entry_tree = tree, install_update_handler = install, sparse = sp,
                      settings_obj = so,
                      process_entry_attr = attrs s ''process_setting_entry''\<rparr> tree s)"

subsection \<open>\<^verbatim>\<open>load_settings\<close>\<close>

text \<open>\<^verbatim>\<open>self.setting_entries\<close>: the instance dictionary first, then the class.\<close>

definition get_setting_entries :: "state \<Rightarrow> pyval" where
  "get_setting_entries s =
     (case attrs s ''setting_entries'' of None \<Rightarrow> setting_entries s | Some v \<Rightarrow> v)"

definition resolve_tree :: "pyval \<Rightarrow> state \<Rightarrow> pyval" where
  "resolve_tree tree s = (if tree = PNone then get_setting_entries s else tree)"

text \<open>\<^verbatim>\<open>self.__reload_settings(tree, install, sparse)\<close>.\<close>

definition call_reload_settings :: "pyval \<Rightarrow> bool \<Rightarrow> bool \<Rightarrow> state \<Rightarrow> outcome" where
  "call_reload_settings tree install sp s =
     (case shadowed reload_settings_name s of
        Some e \<Rightarrow> (Some e, s)
      | None \<Rightarrow> reload_settings tree install sp s)"

definition load_settings :: "string \<Rightarrow> pyval \<Rightarrow> bool \<Rightarrow> bool \<Rightarrow> state \<Rightarrow> outcome" where
  "load_settings settings_file tree auto_update sparse_upd s =
     (let etree = resolve_tree tree s in
      if api_ready s then
        call_reload_settings etree auto_update sparse_upd
          (s\<lparr>attrs := (attrs s)(''_settings_obj'' \<mapsto> PSettings settings_file)\<rparr>)
      else
        (case call_reload_settings etree False False
                (s\<lparr>attrs := (attrs s)(''_settings_obj'' \<mapsto> PNone)\<rparr>) of
           (Some e, s') \<Rightarrow> (Some e, s')
         | (None, s') \<Rightarrow>
             (None, set_timeout (Loader settings_file etree auto_update sparse_upd) 500 s')))"

subsection \<open>\<^verbatim>\<open>__delay_reload_settings\<close> and the callbacks\<close>

text \<open>
  The float that arithmetic with a float reads from the other operand: a float as it
  is, \<^verbatim>\<open>bool\<close> as 0 or 1, an integer converted to the nearest float, which raises an
  \<^verbatim>\<open>OverflowError\<close> when the integer rounds beyond the largest double
  (\<open>2 ^ 1024 - 2 ^ 970\<close> and above in absolute value).
\<close>

definition to_float :: "(real \<Rightarrow> real) \<Rightarrow> pyval \<Rightarrow> error + real" where
  "to_float rnd v =
     (case v of
        PFloat r \<Rightarrow> Inr r
      | PInt i \<Rightarrow>
          if \<bar>i\<bar> < 2 ^ 1024 - 2 ^ 970 then Inr (rnd (of_int i)) else Inl OverflowError
      | PBool b \<Rightarrow> Inr (if b then 1 else 0)
      | _ \<Rightarrow> Inl (TypeError (Bad_operand (type_of v))))"

text \<open>
  The method is declared as \<^verbatim>\<open>def __delay_reload_settings(self)\<close>: it accepts no
  argument besides \<^verbatim>\<open>self\<close>, so a call that passes any raises a \<^verbatim>\<open>TypeError\<close>
  before the body runs. \<open>args\<close> are the arguments of the call, \<open>current_time\<close> the
  reading that \<^verbatim>\<open>time.clock()\<close> returns. The difference of the two timestamps is a
  float subtraction: the exact difference, rounded. \<^verbatim>\<open>self.__reload_settings\<close> is
  looked up on the instance when it is handed to \<^verbatim>\<open>set_timeout\<close>.
\<close>

definition delay_reload_settings :: "pyval list \<Rightarrow> real \<Rightarrow> state \<Rightarrow> outcome" where
  "delay_reload_settings args current_time s =
     (if args \<noteq> [] then
        (Some (TypeError (Wrong_arguments ''__delay_reload_settings'' (length args))), s)
      else
        (case attrs s ''_settings_update_time'' of
           None \<Rightarrow> (Some (AttributeError ''_settings_update_time''), s)
         | Some t \<Rightarrow>
             (case to_float (float_round s) t of
                Inl e \<Rightarrow> (Some e, s)
              | Inr last_time \<Rightarrow>
                  if \<bar>float_round s (current_time - last_time)\<bar> > 2 then
                    (None,
                     set_timeout
                       (case attrs s reload_settings_name of
                          None \<Rightarrow> Reload_settings_method
                        | Some v \<Rightarrow> Instance_value v) 2
                       (s\<lparr>attrs := (attrs s)(''_settings_update_time'' \<mapsto> PFloat current_time)\<rparr>))
                  else (None, s))))"

text \<open>\<^verbatim>\<open>update_handler\<close> of \<^verbatim>\<open>__reload_settings\<close> calls
  \<^verbatim>\<open>self.__delay_reload_settings\<close> with its three closure variables.\<close>

definition update_handler :: "pyval \<Rightarrow> bool \<Rightarrow> bool \<Rightarrow> real \<Rightarrow> state \<Rightarrow> outcome" where
  "update_handler tree install sp current_time s =
     (case shadowed delay_reload_settings_name s of
        Some e \<Rightarrow> (Some e, s)
      | None \<Rightarrow> delay_reload_settings [tree, PBool install, PBool sp] current_time s)"

text \<open>
  The host runs a callback with no arguments. \<^verbatim>\<open>_loader\<close> calls
  \<^verbatim>\<open>self.load_settings\<close>. \<^verbatim>\<open>__reload_settings\<close> has a required parameter
  \<^verbatim>\<open>entry_tree\<close>, so running the bound method raises a \<^verbatim>\<open>TypeError\<close>.
\<close>

fun run_callback :: "callback \<Rightarrow> real \<Rightarrow> state \<Rightarrow> outcome" where
  "run_callback (Loader f t a sp) current_time s =
     (case shadowed ''load_settings'' s of
        Some e \<Rightarrow> (Some e, s)
      | None \<Rightarrow> load_settings f t a sp s)"
| "run_callback (Process_entry entry) current_time s =
     (case process_setting_entry entry s of
        Inl e \<Rightarrow> (Some e, s)
      | Inr (key, s') \<Rightarrow> (None, s'))"
| "run_callback (Update_handler t i sp) current_time s = update_handler t i sp current_time s"
| "run_callback Reload_settings_method current_time s =
     (Some (TypeError (Wrong_arguments ''__reload_settings'' 0)), s)"
| "run_callback (Instance_value v) current_time s =
     (Some (TypeError (Not_callable (type_of v))), s)"

text \<open>
  Successive calls \<^verbatim>\<open>self.__delay_reload_settings()\<close> at the clock readings of a
  list: \<open>debounced\<close> collects the readings of the calls that handed a callback to
  \<^verbatim>\<open>set_timeout\<close>. A call that raised leaves the state to the next one.
\<close>

fun debounced :: "real list \<Rightarrow> state \<Rightarrow> real list" where
  "debounced [] s = []"
| "debounced (t # ts) s =
     (let s' = snd (delay_reload_settings [] t s) in
      (if timeouts s' = timeouts s then [] else [t]) @ debounced ts s')"

text \<open>No two readings of the list lie within 2 time-units of each other.\<close>

fun spaced :: "real list \<Rightarrow> bool" where
  "spaced [] = True"
| "spaced (t # ts) = (list_all (\<lambda>u. \<bar>u - t\<bar> > 2) ts \<and> spaced ts)"

text \<open>What the proofs need of the rounding: it keeps the order of the reals and leaves
  the floats 2 and -2 as they are, as rounding to the nearest float does.\<close>

definition sound_rounding :: "(real \<Rightarrow> real) \<Rightarrow> bool" where
  "sound_rounding rnd = (mono rnd \<and> rnd 2 = 2 \<and> rnd (- 2) = - 2)"

section \<open>The walk with a bound on the recursion depth\<close>

text \<open>
  \<^verbatim>\<open>_load_entry\<close> again, with the number of nested calls that may still be made:
  each call of \<^verbatim>\<open>_load_entry\<close> takes one, the \<^verbatim>\<open>for\<close> loop takes none, and
  \<open>None\<close> means that the bound was reached before the walk returned or raised.
\<close>

fun load_entry_fuel :: "nat \<Rightarrow> walk \<Rightarrow> pyval \<Rightarrow> state \<Rightarrow> outcome option"
  and load_entries_fuel :: "nat \<Rightarrow> walk \<Rightarrow> pyval list \<Rightarrow> state \<Rightarrow> outcome option" where
  "load_entry_fuel 0 w entry s = None"
| "load_entry_fuel (Suc n) w entry s =
     (case is_setting_entry entry of
        Inl e \<Rightarrow> Some (Some e, s)
      | Inr True \<Rightarrow> Some (load_leaf w entry s)
      | Inr False \<Rightarrow>
          (case entry of
             PTuple sub_entries \<Rightarrow> load_entries_fuel n w sub_entries s
           | _ \<Rightarrow> Some (Some (TypeError (Bad_setting_entry (type_of entry) entry)), s)))"
| "load_entries_fuel n w [] s = Some (None, s)"
| "load_entries_fuel n w (sub_entry # rest) s =
     (case load_entry_fuel n w sub_entry s of
        None \<Rightarrow> None
      | Some (Some e, s') \<Rightarrow> Some (Some e, s')
      | Some (None, s') \<Rightarrow> load_entries_fuel n w rest s')"

text \<open>The nesting depth of the tuples of a tree.\<close>

fun depth :: "pyval \<Rightarrow> nat" where
  "depth (PTuple xs) = Suc (foldr max (map depth xs) 0)"
| "depth v = 0"

section \<open>Trees, leaves and what a walk assigns\<close>

text \<open>A tree the walk accepts: every node it reaches is a setting entry or a tuple of
  such nodes.\<close>

fun well_formed :: "pyval \<Rightarrow> bool" where
  "well_formed entry =
     (case is_setting_entry entry of
        Inl e \<Rightarrow> False
      | Inr True \<Rightarrow> True
      | Inr False \<Rightarrow>
          (case entry of
             PTuple sub_entries \<Rightarrow> list_all well_formed sub_entries
           | _ \<Rightarrow> False))"

text \<open>The setting entries of a tree, in the order the walk meets them.\<close>

fun leaf_entries :: "pyval \<Rightarrow> pyval list" where
  "leaf_entries entry =
     (case is_setting_entry entry of
        Inl e \<Rightarrow> []
      | Inr True \<Rightarrow> [entry]
      | Inr False \<Rightarrow>
          (case entry of
             PTuple sub_entries \<Rightarrow> concat (map leaf_entries sub_entries)
           | _ \<Rightarrow> []))"

text \<open>The attribute name of a setting entry, and the names a tree binds.\<close>

definition leaf_name :: "pyval \<Rightarrow> string" where
  "leaf_name entry = (case items entry of Some (PStr a # rest) \<Rightarrow> a | _ \<Rightarrow> [])"

definition leaf_names :: "pyval \<Rightarrow> string list" where
  "leaf_names tree = map leaf_name (leaf_entries tree)"

text \<open>The key that a setting entry is looked up under: its key name, or its attribute
  name when the key name is \<^verbatim>\<open>''\<close> or \<^verbatim>\<open>Ellipsis\<close>.\<close>

definition lookup_key :: "pyval \<Rightarrow> pyval \<Rightarrow> pyval" where
  "lookup_key attribute key = (if key = PStr [] \<or> key = PEllipsis then attribute else key)"

text \<open>The value a setting entry receives when \<^verbatim>\<open>_settings_obj\<close> holds \<open>so\<close>, and the
  instance dictionary after the entries of a list were assigned in order.\<close>

definition leaf_value :: "pyval \<Rightarrow> (string \<Rightarrow> (pyval \<rightharpoonup> pyval)) \<Rightarrow> pyval \<Rightarrow> pyval" where
  "leaf_value so sts entry =
     (case items entry of
        Some [a, k, d] \<Rightarrow>
          (case so of PSettings f \<Rightarrow> store_get (sts f) (lookup_key a k) d | _ \<Rightarrow> d)
      | _ \<Rightarrow> PNone)"

definition assign_leaf ::
  "pyval \<Rightarrow> (string \<Rightarrow> (pyval \<rightharpoonup> pyval)) \<Rightarrow> (string \<rightharpoonup> pyval) \<Rightarrow> pyval \<Rightarrow> (string \<rightharpoonup> pyval)" where
  "assign_leaf so sts m entry = m(leaf_name entry \<mapsto> leaf_value so sts entry)"

definition assign_leaves ::
  "pyval \<Rightarrow> (string \<Rightarrow> (pyval \<rightharpoonup> pyval)) \<Rightarrow> pyval list \<Rightarrow> (string \<rightharpoonup> pyval) \<Rightarrow> (string \<rightharpoonup> pyval)" where
  "assign_leaves so sts entries m = foldl (assign_leaf so sts) m entries"

text \<open>A name that a setting entry can be bound to without disturbing the walk:
  \<^verbatim>\<open>setattr\<close> accepts it, and it is not the store reference that
  \<^verbatim>\<open>process_setting_entry\<close> reads for every entry.\<close>

definition bindable :: "string \<Rightarrow> bool" where
  "bindable a = (assignable a \<and> a \<noteq> ''_settings_obj'')"

text \<open>The callback that the walk registers for a setting entry.\<close>

definition handler_for :: "walk \<Rightarrow> pyval \<Rightarrow> callback" where
  "handler_for w entry =
     (if sparse w then Process_entry entry
      else Update_handler (entry_tree w) (install_update_handler w) (sparse w))"

text \<open>The calls to \<^verbatim>\<open>add_on_change\<close> that a walk makes for a list of setting entries,
  and whether the local \<^verbatim>\<open>settings_obj\<close> can take them.\<close>

definition registrations :: "walk \<Rightarrow> pyval list \<Rightarrow> (string \<times> pyval \<times> callback) list" where
  "registrations w es =
     (if install_update_handler w then
        (case settings_obj w of
           PSettings g \<Rightarrow> map (\<lambda>e. (g, e, handler_for w e)) es
         | _ \<Rightarrow> [])
      else [])"

definition can_register :: "walk \<Rightarrow> bool" where
  "can_register w =
     (if install_update_handler w then
        (case settings_obj w of PSettings g \<Rightarrow> True | _ \<Rightarrow> False)
      else True)"

text \<open>The state after a walk that processed the setting entries \<open>es\<close> in order while
  \<^verbatim>\<open>_settings_obj\<close> held \<open>so\<close>.\<close>

definition walked :: "walk \<Rightarrow> pyval \<Rightarrow> pyval list \<Rightarrow> state \<Rightarrow> state" where
  "walked w so es s =
     s\<lparr>attrs := assign_leaves so (stores s) es (attrs s),
       on_change := on_change s @ registrations w es\<rparr>"

text \<open>
  A bound object on which nothing was loaded yet, in a host that has no settings stored
  and whose API is not ready; \<open>plugin_loaded\<close> is the hook that sets
  \<^verbatim>\<open>API_READY\<close>. Its rounding leaves every real as it is, which is what float
  arithmetic does on the numbers the examples below compute with (0, 1/2, 3, 4 and
  their differences are doubles).
\<close>

definition fresh :: state where
  "fresh =
     \<lparr>attrs = Map.empty, setting_entries = PTuple [], api_ready = False,
      stores = (\<lambda>f. Map.empty), on_change = [], timeouts = [],
      float_round = (\<lambda>x. x)\<rparr>"

definition plugin_loaded :: "state \<Rightarrow> state" where
  "plugin_loaded s = s\<lparr>api_ready := True\<rparr>"

text \<open>
  The methods that a call of \<^verbatim>\<open>load_settings\<close> and its retry resolve on
  \<^verbatim>\<open>self\<close>, under the names the instance dictionary would shadow them by.
\<close>

definition method_names :: "string list" where
  "method_names =
     [''load_settings'', ''process_setting_entry'',
      ''_DeclarativeSettingsMixin__reload_settings'']"

text \<open>A tree of two setting entries, one of them nested and with its key name left out,
  and a host that stores values for both.\<close>

definition sample_tree :: pyval where
  "sample_tree =
     PTuple [PTuple [PStr ''a'', PStr ''x'', PInt 1],
             PTuple [PTuple [PStr ''b'', PStr [], PInt 2]]]"

definition sample_host :: state where
  "sample_host = fresh\<lparr>stores := (\<lambda>f. [PStr ''x'' \<mapsto> PInt 7, PStr ''b'' \<mapsto> PInt 9])\<rparr>"

section \<open>Lemmas about the walk\<close>

declare load_entry.simps(1) [simp del] leaf_entries.simps [simp del] well_formed.simps [simp del]

lemma leaf_entries_leaf: "is_setting_entry e = Inr True \<Longrightarrow> leaf_entries e = [e]"
  by (simp add: leaf_entries.simps)

lemma leaf_entries_tuple:
  "is_setting_entry (PTuple subs) = Inr False \<Longrightarrow> leaf_entries (PTuple subs) = concat (map leaf_entries subs)"
  by (simp add: leaf_entries.simps)

lemma well_formed_tuple:
  "is_setting_entry (PTuple subs) = Inr False \<Longrightarrow> well_formed (PTuple subs) = list_all well_formed subs"
  by (simp add: well_formed.simps)

lemma well_formed_cases:
  assumes "well_formed e"
  shows "is_setting_entry e = Inr True \<or> (\<exists>subs. e = PTuple subs \<and> is_setting_entry e = Inr False \<and> list_all well_formed subs)"
proof (cases "is_setting_entry e")
  case (Inl err)
  with assms show ?thesis by (simp add: well_formed.simps)
next
  case (Inr b)
  show ?thesis
  proof (cases b)
    case True
    with Inr show ?thesis by simp
  next
    case False
    with Inr assms show ?thesis by (cases e) (simp_all add: well_formed.simps)
  qed
qed


lemma is_setting_entry_True:
  assumes "is_setting_entry e = Inr True"
  shows "\<exists>n k d. items e = Some [PStr n, k, d]"
proof -
  from assms obtain n where n: "py_len e = Inr n"
    by (cases "py_len e") (simp_all add: is_setting_entry_def)
  with assms have n3: "n = 3" by (auto simp: is_setting_entry_def split: if_splits)
  from n n3 obtain xs where xs: "items e = Some xs" "length xs = 3"
    by (cases e) (auto simp: py_len_def items_def)
  then obtain x k d where l: "xs = [x, k, d]"
    by (cases xs; cases "tl xs"; cases "tl (tl xs)") auto
  with assms n n3 xs have "is_str x" by (simp add: is_setting_entry_def py_index0_def)
  then obtain a where "x = PStr a" by (cases x) (simp_all add: is_str_def)
  with xs l show ?thesis by simp
qed



lemma leaf_name_items: "items e = Some (PStr n # rest) \<Longrightarrow> leaf_name e = n"
  by (simp add: leaf_name_def)

lemma process_leaf_None:
  assumes "items e = Some [PStr n, k, d]" "attrs s ''_settings_obj'' = Some PNone" "assignable n"
  shows "process_setting_entry e s = Inr (lookup_key (PStr n) k, s\<lparr>attrs := (attrs s)(n \<mapsto> d)\<rparr>)"
  using assms
  by (simp add: process_setting_entry_def unpack3_def setattr_def lookup_key_def Let_def
      assignable_def)

lemma process_leaf_Settings:
  assumes "items e = Some [PStr n, k, d]" "attrs s ''_settings_obj'' = Some (PSettings f)"
    "assignable n"
  shows "process_setting_entry e s =
    Inr (lookup_key (PStr n) k, s\<lparr>attrs := (attrs s)(n \<mapsto> store_get (stores s f) (lookup_key (PStr n) k) d)\<rparr>)"
  using assms
  by (simp add: process_setting_entry_def unpack3_def setattr_def settings_get_def lookup_key_def
      Let_def assignable_def)

lemma process_leaf_value:
  assumes "items e = Some [PStr n, k, d]" "attrs s ''_settings_obj'' = Some so"
    "so = PNone \<or> so = PSettings f" "assignable n"
  shows "process_setting_entry e s =
    Inr (lookup_key (PStr n) k, s\<lparr>attrs := (attrs s)(n \<mapsto> leaf_value so (stores s) e)\<rparr>)"
  using assms process_leaf_None[of e n k d s] process_leaf_Settings[of e n k d s f]
  by (auto simp: leaf_value_def)

lemma load_leaf_ok:
  assumes "items e = Some [PStr n, k, d]" "attrs s ''_settings_obj'' = Some so"
    "so = PNone \<or> so = PSettings f" "can_register w" "assignable n"
    "process_entry_attr w = None"
  shows "load_leaf w e s =
    (None, s\<lparr>attrs := (attrs s)(n \<mapsto> leaf_value so (stores s) e),
              on_change := on_change s @ registrations w [e]\<rparr>)"
proof (cases "install_update_handler w")
  case False
  then show ?thesis
    using process_leaf_value[OF assms(1,2,3,5)] assms(6)
    by (simp add: load_leaf_def registrations_def)
next
  case True
  with assms(4) obtain g where g: "settings_obj w = PSettings g"
    by (cases "settings_obj w") (simp_all add: can_register_def)
  with True show ?thesis
    using process_leaf_value[OF assms(1,2,3,5)] assms(6)
    by (simp add: load_leaf_def registrations_def handler_for_def add_on_change_def Let_def)
qed


lemma load_entry_leaf: "is_setting_entry e = Inr True \<Longrightarrow> load_entry w e s = load_leaf w e s"
  by (simp add: load_entry.simps(1))

lemma load_entry_tuple:
  "is_setting_entry (PTuple subs) = Inr False \<Longrightarrow> load_entry w (PTuple subs) s = load_entries w subs s"
  by (simp add: load_entry.simps(1))

lemma walked_Nil: "walked w so [] s = s"
  by (simp add: walked_def assign_leaves_def registrations_def split: pyval.splits)

lemma registrations_append: "registrations w (xs @ ys) = registrations w xs @ registrations w ys"
  by (simp add: registrations_def split: pyval.splits)

lemma walked_append: "walked w so (xs @ ys) s = walked w so ys (walked w so xs s)"
  by (simp add: walked_def assign_leaves_def registrations_append)

lemma walked_single:
  "walked w so [e] s = s\<lparr>attrs := (attrs s)(leaf_name e \<mapsto> leaf_value so (stores s) e),
       on_change := on_change s @ registrations w [e]\<rparr>"
  by (simp add: walked_def assign_leaves_def assign_leaf_def)

lemma walked_settings_obj:
  "''_settings_obj'' \<notin> set (map leaf_name es) \<Longrightarrow> attrs (walked w so es s) ''_settings_obj'' = attrs s ''_settings_obj''"
  by (induction es arbitrary: s rule: rev_induct) (auto simp: walked_append walked_single walked_Nil)

lemma bindable_not_settings_obj:
  "list_all bindable ns \<Longrightarrow> ''_settings_obj'' \<notin> set ns"
  by (auto simp: list_all_iff bindable_def)

lemma walk_ok:
  "well_formed e \<Longrightarrow> list_all bindable (leaf_names e) \<Longrightarrow>
   attrs s ''_settings_obj'' = Some so \<Longrightarrow> so = PNone \<or> so = PSettings f \<Longrightarrow> can_register w \<Longrightarrow>
   process_entry_attr w = None \<Longrightarrow>
   load_entry w e s = (None, walked w so (leaf_entries e) s)"
  "list_all well_formed es \<Longrightarrow> list_all bindable (concat (map leaf_names es)) \<Longrightarrow>
   attrs s ''_settings_obj'' = Some so \<Longrightarrow> so = PNone \<or> so = PSettings f \<Longrightarrow> can_register w \<Longrightarrow>
   process_entry_attr w = None \<Longrightarrow>
   load_entries w es s = (None, walked w so (concat (map leaf_entries es)) s)"
proof (induction w e s and w es s rule: load_entry_load_entries.induct)
  case (1 w entry s)
  from well_formed_cases[OF "1.prems"(1)] show ?case
  proof
    assume leaf: "is_setting_entry entry = Inr True"
    then obtain n k d where it: "items entry = Some [PStr n, k, d]"
      by (blast dest: is_setting_entry_True)
    have "assignable n"
      using "1.prems"(2) leaf leaf_name_items[OF it]
      by (simp add: leaf_names_def leaf_entries_leaf bindable_def)
    then have "load_leaf w entry s = (None, walked w so [entry] s)"
      using load_leaf_ok[OF it "1.prems"(3,4,5) _ "1.prems"(6)] leaf_name_items[OF it]
      by (simp add: walked_single)
    with leaf show ?thesis by (simp add: load_entry_leaf leaf_entries_leaf)
  next
    assume "\<exists>subs. entry = PTuple subs \<and> is_setting_entry entry = Inr False \<and> list_all well_formed subs"
    then obtain subs where e: "entry = PTuple subs" and ne: "is_setting_entry entry = Inr False"
      and wf: "list_all well_formed subs" by blast
    have le: "leaf_entries entry = concat (map leaf_entries subs)"
      using e ne by (simp add: leaf_entries_tuple)
    have names: "list_all bindable (concat (map leaf_names subs))"
      using "1.prems"(2) le by (simp add: leaf_names_def[abs_def] map_concat comp_def)
    have "load_entries w subs s = (None, walked w so (concat (map leaf_entries subs)) s)"
      using "1.IH"[OF ne _ e wf names "1.prems"(3,4,5,6)] by simp
    with e ne le show ?thesis by (simp add: load_entry_tuple)
  qed
next
  case (2 w s)
  then show ?case by (simp add: walked_Nil)
next
  case (3 w sub_entry rest s)
  have wf1: "well_formed sub_entry" and wf2: "list_all well_formed rest"
    using "3.prems"(1) by simp_all
  have n1: "list_all bindable (leaf_names sub_entry)"
    and n2: "list_all bindable (concat (map leaf_names rest))"
    using "3.prems"(2) by simp_all
  have h: "load_entry w sub_entry s = (None, walked w so (leaf_entries sub_entry) s)"
    using "3.IH"(1)[OF wf1 n1 "3.prems"(3,4,5,6)] .
  let ?s1 = "walked w so (leaf_entries sub_entry) s"
  have so1: "attrs ?s1 ''_settings_obj'' = Some so"
    using walked_settings_obj[of "leaf_entries sub_entry" w so s]
      bindable_not_settings_obj[OF n1] "3.prems"(3)
    by (simp add: leaf_names_def)
  have "load_entries w rest ?s1 = (None, walked w so (concat (map leaf_entries rest)) ?s1)"
    using "3.IH"(2)[OF h[symmetric] refl wf2 n2 so1 "3.prems"(4,5,6)] .
  with h show ?case by (simp add: walked_append)
qed

lemma setattr_Inr:
  "setattr a v s = Inr s' \<Longrightarrow> \<exists>n. a = PStr n \<and> s' = s\<lparr>attrs := (attrs s)(n \<mapsto> v)\<rparr>"
  by (cases a) (simp_all add: setattr_def split: if_splits)

lemma process_setting_entry_Inr:
  assumes "process_setting_entry entry s = Inr (k, s')"
  shows "\<exists>n v. s' = s\<lparr>attrs := (attrs s)(n \<mapsto> v)\<rparr>"
proof -
  from assms obtain so where so: "attrs s ''_settings_obj'' = Some so"
    by (cases "attrs s ''_settings_obj''") (simp_all add: process_setting_entry_def)
  from assms so obtain a k0 d where u: "unpack3 entry = Inr (a, k0, d)"
    by (cases "unpack3 entry") (auto simp: process_setting_entry_def)
  from assms so u obtain v where "setattr a v s = Inr s'"
    by (auto simp: process_setting_entry_def Let_def split: if_splits sum.splits)
  then show ?thesis by (blast dest: setattr_Inr)
qed

lemma load_leaf_cases:
  assumes "load_leaf w e s = (r, s')"
  shows "s' = s \<or>
    (\<exists>k s1. process_setting_entry e s = Inr (k, s1) \<and>
       (s' = s1 \<or> (\<exists>f cb. s' = add_on_change f e cb s1)))"
proof (cases "process_entry_attr w")
  case (Some v)
  with assms show ?thesis by (simp add: load_leaf_def)
next
  case None
  show ?thesis
  proof (cases "process_setting_entry e s")
    case (Inl err)
    with assms None show ?thesis by (simp add: load_leaf_def)
  next
    case (Inr p)
    obtain k s1 where p: "p = (k, s1)" by (cases p)
    from assms None Inr p have "s' = s1 \<or> (\<exists>f cb. s' = add_on_change f e cb s1)"
      by (auto simp: load_leaf_def Let_def split: if_splits pyval.splits)
    with Inr p show ?thesis by blast
  qed
qed

lemma load_leaf_shape:
  assumes "load_leaf w e s = (r, s')"
  shows "\<exists>m oc. s' = s\<lparr>attrs := m, on_change := oc\<rparr>"
  using load_leaf_cases[OF assms]
proof (elim disjE exE conjE)
  assume "s' = s"
  then have "s' = s\<lparr>attrs := attrs s, on_change := on_change s\<rparr>" by simp
  then show ?thesis by blast
next
  fix k s1 assume p: "process_setting_entry e s = Inr (k, s1)" and "s' = s1"
  from p obtain n v where "s1 = s\<lparr>attrs := (attrs s)(n \<mapsto> v)\<rparr>"
    by (blast dest: process_setting_entry_Inr)
  with \<open>s' = s1\<close> have "s' = s\<lparr>attrs := (attrs s)(n \<mapsto> v), on_change := on_change s\<rparr>" by simp
  then show ?thesis by blast
next
  fix k s1 f cb
  assume p: "process_setting_entry e s = Inr (k, s1)" and a: "s' = add_on_change f e cb s1"
  from p obtain n v where "s1 = s\<lparr>attrs := (attrs s)(n \<mapsto> v)\<rparr>"
    by (blast dest: process_setting_entry_Inr)
  with a have "s' = s\<lparr>attrs := (attrs s)(n \<mapsto> v), on_change := on_change s @ [(f, e, cb)]\<rparr>"
    by (simp add: add_on_change_def)
  then show ?thesis by blast
qed

lemma load_entry_shape:
  "load_entry w e s = (r, s') \<Longrightarrow> \<exists>m oc. s' = s\<lparr>attrs := m, on_change := oc\<rparr>"
  "load_entries w es s = (r, s') \<Longrightarrow> \<exists>m oc. s' = s\<lparr>attrs := m, on_change := oc\<rparr>"
proof (induction w e s and w es s arbitrary: r s' and r s' rule: load_entry_load_entries.induct)
  case (1 w entry s)
  have triv: "\<exists>m oc. s = s\<lparr>attrs := m, on_change := oc\<rparr>"
  proof -
    have "s = s\<lparr>attrs := attrs s, on_change := on_change s\<rparr>" by simp
    then show ?thesis by blast
  qed
  show ?case
  proof (cases "is_setting_entry entry")
    case (Inl err)
    with "1.prems" have "s' = s" by (simp add: load_entry.simps(1))
    with triv show ?thesis by simp
  next
    case (Inr b)
    show ?thesis
    proof (cases b)
      case True
      with Inr "1.prems" have "load_leaf w entry s = (r, s')" by (simp add: load_entry_leaf)
      then show ?thesis by (rule load_leaf_shape)
    next
      case False
      show ?thesis
      proof (cases "\<exists>subs. entry = PTuple subs")
        case True
        then obtain subs where e: "entry = PTuple subs" by blast
        with Inr False "1.prems" have "load_entries w subs s = (r, s')" by (simp add: load_entry_tuple)
        with "1.IH"[OF Inr _ e] False show ?thesis by simp
      next
        case nt: False
        with Inr False "1.prems" have "s' = s" by (cases entry) (simp_all add: load_entry.simps(1))
        with triv show ?thesis by simp
      qed
    qed
  qed
next
  case (2 w s)
  then have "s' = s\<lparr>attrs := attrs s, on_change := on_change s\<rparr>" by simp
  then show ?case by blast
next
  case (3 w sub_entry rest s)
  obtain r1 s1 where h: "load_entry w sub_entry s = (r1, s1)" by (cases "load_entry w sub_entry s")
  from "3.IH"(1)[OF h] obtain m1 oc1 where s1: "s1 = s\<lparr>attrs := m1, on_change := oc1\<rparr>" by blast
  show ?case
  proof (cases r1)
    case None
    with h "3.prems" have "load_entries w rest s1 = (r, s')" by simp
    from "3.IH"(2)[OF h[symmetric] None this] obtain m oc where "s' = s1\<lparr>attrs := m, on_change := oc\<rparr>" by blast
    with s1 have "s' = s\<lparr>attrs := m, on_change := oc\<rparr>" by simp
    then show ?thesis by blast
  next
    case (Some err)
    with h "3.prems" have "s' = s1" by simp
    with s1 show ?thesis by blast
  qed
qed

lemma assign_leaves_other:
  "a \<notin> set (map leaf_name es) \<Longrightarrow> assign_leaves so sts es m a = m a"
  by (induction es arbitrary: m) (simp_all add: assign_leaves_def assign_leaf_def)

lemma assign_leaves_Cons:
  "assign_leaves so sts (e # es) m = assign_leaves so sts es (assign_leaf so sts m e)"
  by (simp add: assign_leaves_def)

lemma assign_leaves_app:
  "assign_leaves so sts (xs @ ys) m = assign_leaves so sts ys (assign_leaves so sts xs m)"
  by (simp add: assign_leaves_def)

lemma assign_leaves_last:
  assumes "leaf_name e \<notin> set (map leaf_name post)"
  shows "assign_leaves so sts (pre @ e # post) m (leaf_name e) = Some (leaf_value so sts e)"
  using assms
  by (simp add: assign_leaves_app assign_leaves_Cons assign_leaves_other) (simp add: assign_leaf_def)

lemma unpack3_Inr: "unpack3 e = Inr (a, k, d) \<Longrightarrow> items e = Some [a, k, d]"
  by (auto simp: unpack3_def split: option.splits list.splits)




subsection \<open>The bounded walk\<close>

lemma depth_mem: "x \<in> set xs \<Longrightarrow> depth x \<le> foldr max (map depth xs) 0"
  by (induction xs) auto

lemma fuel_enough:
  "depth e < n \<Longrightarrow> load_entry_fuel n w e s = Some (load_entry w e s)"
  "(\<And>x. x \<in> set es \<Longrightarrow> depth x < n) \<Longrightarrow> load_entries_fuel n w es s = Some (load_entries w es s)"
proof (induction w e s and w es s arbitrary: n and n rule: load_entry_load_entries.induct)
  case (1 w entry s)
  then obtain m where n: "n = Suc m" by (cases n) simp_all
  show ?case
  proof (cases "is_setting_entry entry")
    case (Inl err)
    with n show ?thesis by (simp add: load_entry.simps(1))
  next
    case (Inr isleaf)
    show ?thesis
    proof (cases isleaf)
      case True
      with Inr n show ?thesis by (simp add: load_entry.simps(1))
    next
      case False
      show ?thesis
      proof (cases "\<exists>subs. entry = PTuple subs")
        case True
        then obtain subs where e: "entry = PTuple subs" by blast
        have "\<And>x. x \<in> set subs \<Longrightarrow> depth x < m"
          using "1.prems" n e depth_mem[of _ subs] by fastforce
        from "1.IH"[OF Inr _ e this] False
        have "load_entries_fuel m w subs s = Some (load_entries w subs s)" by simp
        with Inr False e n show ?thesis by (simp add: load_entry.simps(1))
      next
        case nt: False
        with Inr False n show ?thesis by (cases entry) (simp_all add: load_entry.simps(1))
      qed
    qed
  qed
next
  case (2 w s)
  then show ?case by simp
next
  case (3 w sub_entry rest s)
  have h: "load_entry_fuel n w sub_entry s = Some (load_entry w sub_entry s)"
    using "3.IH"(1) "3.prems" by simp
  obtain r1 s1 where l: "load_entry w sub_entry s = (r1, s1)" by (cases "load_entry w sub_entry s")
  show ?case
  proof (cases r1)
    case None
    have "load_entries_fuel n w rest s1 = Some (load_entries w rest s1)"
      using "3.IH"(2)[OF l[symmetric] None] "3.prems" by simp
    with h l None show ?thesis by simp
  next
    case (Some err)
    with h l show ?thesis by simp
  qed
qed

section \<open>Lemmas about loading and the debounced reload\<close>

lemmas eval_defs = load_settings_def call_reload_settings_def shadowed_def
  reload_settings_name_def delay_reload_settings_name_def
  resolve_tree_def get_setting_entries_def reload_settings_def
  load_entry.simps(1) is_setting_entry_def py_len_def py_index0_def items_def is_str_def
  load_leaf_def process_setting_entry_def unpack3_def setattr_def settings_get_def store_get_def
  add_on_change_def set_timeout_def fresh_def plugin_loaded_def Let_def

lemma call_reload_settings_unshadowed:
  "attrs s reload_settings_name = None \<Longrightarrow>
   call_reload_settings tree i sp (s\<lparr>attrs := (attrs s)(''_settings_obj'' \<mapsto> v)\<rparr>)
     = reload_settings tree i sp (s\<lparr>attrs := (attrs s)(''_settings_obj'' \<mapsto> v)\<rparr>)"
  by (simp add: call_reload_settings_def shadowed_def reload_settings_name_def)

lemma load_settings_empty:
  assumes "resolve_tree tree s = PTuple []" "attrs s reload_settings_name = None"
  shows "load_settings f tree a sp s =
    (None, if api_ready s then s\<lparr>attrs := (attrs s)(''_settings_obj'' \<mapsto> PSettings f)\<rparr>
           else set_timeout (Loader f (PTuple []) a sp) 500 (s\<lparr>attrs := (attrs s)(''_settings_obj'' \<mapsto> PNone)\<rparr>))"
  using assms
  by (simp add: load_settings_def call_reload_settings_unshadowed reload_settings_def
      load_entry.simps(1) is_setting_entry_def py_len_def Let_def)










lemma load_settings_ready:
  assumes "api_ready s" "resolve_tree tree s = etree" "well_formed etree"
    "list_all bindable (leaf_names etree)"
    "attrs s reload_settings_name = None" "attrs s ''process_setting_entry'' = None"
  shows "load_settings f tree au sp s =
    (None, walked \<lparr>entry_tree = etree, install_update_handler = au, sparse = sp,
                    settings_obj = PSettings f, process_entry_attr = None\<rparr>
             (PSettings f) (leaf_entries etree)
             (s\<lparr>attrs := (attrs s)(''_settings_obj'' \<mapsto> PSettings f)\<rparr>))"
proof -
  let ?s0 = "s\<lparr>attrs := (attrs s)(''_settings_obj'' \<mapsto> PSettings f)\<rparr>"
  let ?w = "\<lparr>entry_tree = etree, install_update_handler = au, sparse = sp,
                    settings_obj = PSettings f, process_entry_attr = None\<rparr>"
  have so: "attrs ?s0 ''_settings_obj'' = Some (PSettings f)" by simp
  have cr: "can_register ?w" by (simp add: can_register_def)
  have "load_entry ?w etree ?s0 = (None, walked ?w (PSettings f) (leaf_entries etree) ?s0)"
    using walk_ok(1)[OF assms(3,4) so _ cr, of f] by simp
  with assms(1,2,5,6) show ?thesis
    by (simp add: load_settings_def call_reload_settings_unshadowed reload_settings_def)
qed

lemma load_settings_not_ready:
  assumes "\<not> api_ready s" "resolve_tree tree s = etree" "well_formed etree"
    "list_all bindable (leaf_names etree)"
    "attrs s reload_settings_name = None" "attrs s ''process_setting_entry'' = None"
  shows "load_settings f tree au sp s =
    (None, set_timeout (Loader f etree au sp) 500
            (walked \<lparr>entry_tree = etree, install_update_handler = False, sparse = False,
                    settings_obj = PNone, process_entry_attr = None\<rparr>
             PNone (leaf_entries etree)
             (s\<lparr>attrs := (attrs s)(''_settings_obj'' \<mapsto> PNone)\<rparr>)))"
proof -
  let ?s0 = "s\<lparr>attrs := (attrs s)(''_settings_obj'' \<mapsto> PNone)\<rparr>"
  let ?w = "\<lparr>entry_tree = etree, install_update_handler = False, sparse = False,
                    settings_obj = PNone, process_entry_attr = None\<rparr>"
  have so: "attrs ?s0 ''_settings_obj'' = Some PNone" by simp
  have cr: "can_register ?w" by (simp add: can_register_def)
  have "load_entry ?w etree ?s0 = (None, walked ?w PNone (leaf_entries etree) ?s0)"
    using walk_ok(1)[OF assms(3,4) so _ cr, of "[]"] by simp
  with assms(1,2,5,6) show ?thesis
    by (simp add: load_settings_def call_reload_settings_unshadowed reload_settings_def)
qed

lemma leaf_value_unpack:
  assumes "unpack3 entry = Inr (PStr a, k, d)"
  shows "leaf_name entry = a" "leaf_value PNone sts entry = d"
    "leaf_value (PSettings f) sts entry = store_get (sts f) (lookup_key (PStr a) k) d"
  using unpack3_Inr[OF assms] by (simp_all add: leaf_name_def leaf_value_def)

lemma walked_last:
  assumes "unpack3 entry = Inr (PStr a, k, d)" "a \<notin> set (map leaf_name post)"
  shows "attrs (walked w so (pre @ entry # post) s) a = Some (leaf_value so (stores s) entry)"
  using assign_leaves_last[of entry post so "stores s" pre "attrs s"] assms
  by (simp add: walked_def leaf_value_unpack(1))

lemma walked_other:
  "a \<notin> set (map leaf_name es) \<Longrightarrow> attrs (walked w so es s) a = attrs s a"
  by (simp add: walked_def assign_leaves_other)



lemma reload_settings_timeouts:
  "timeouts (snd (reload_settings etree i sp s)) = timeouts s"
proof (cases "attrs s ''_settings_obj''")
  case None
  then show ?thesis by (simp add: reload_settings_def)
next
  case (Some so)
  let ?w = "\<lparr>entry_tree = etree, install_update_handler = i, sparse = sp, settings_obj = so,
             process_entry_attr = attrs s ''process_setting_entry''\<rparr>"
  have "load_entry ?w etree s = (fst (load_entry ?w etree s), snd (load_entry ?w etree s))" by simp
  from load_entry_shape(1)[OF this] obtain m oc
    where "snd (load_entry ?w etree s) = s\<lparr>attrs := m, on_change := oc\<rparr>" by blast
  with Some show ?thesis by (simp add: reload_settings_def)
qed

lemma call_reload_settings_timeouts:
  "timeouts (snd (call_reload_settings etree i sp s)) = timeouts s"
  using reload_settings_timeouts
  by (simp add: call_reload_settings_def split: option.splits)

lemma load_settings_timeouts_ready:
  assumes "api_ready s"
  shows "timeouts (snd (load_settings f tree au sp s)) = timeouts s"
  using assms by (simp add: load_settings_def Let_def call_reload_settings_timeouts)

lemma run_loader_timeouts_ready:
  assumes "api_ready s"
  shows "timeouts (snd (run_callback (Loader f tree au sp) now s)) = timeouts s"
  using load_settings_timeouts_ready[OF assms]
  by (simp add: shadowed_def split: option.splits)

lemma well_formed_not_None: "well_formed t \<Longrightarrow> t \<noteq> PNone"
  by (auto simp: well_formed.simps is_setting_entry_def py_len_def)

lemma sample_wf: "well_formed sample_tree"
  by (simp add: sample_tree_def well_formed.simps is_setting_entry_def py_len_def py_index0_def
      items_def is_str_def)

lemma sample_leaves:
  "leaf_entries sample_tree =
     [PTuple [PStr ''a'', PStr ''x'', PInt 1]] @ PTuple [PStr ''b'', PStr [], PInt 2] # []"
  by (simp add: sample_tree_def leaf_entries.simps is_setting_entry_def py_len_def py_index0_def
      items_def is_str_def)

lemma sample_names: "leaf_names sample_tree = [''a'', ''b'']"
  by (simp add: leaf_names_def sample_leaves leaf_name_def items_def)

lemma sample_bindable: "list_all bindable (leaf_names sample_tree)"
  by (simp add: sample_names bindable_def assignable_def)

lemma sample_resolve: "resolve_tree sample_tree s = sample_tree"
  by (simp add: resolve_tree_def sample_tree_def)

lemma fresh_attrs: "attrs fresh n = None" "attrs (plugin_loaded fresh) n = None"
  "attrs sample_host n = None" "attrs (plugin_loaded sample_host) n = None"
  by (simp_all add: fresh_def plugin_loaded_def sample_host_def)




text \<open>
  The bound on a sequence of calls rests on the rounding keeping the order, which
  rounding to the nearest float does. With a rounding that does not (here one that
  sends 1 to 3), the calls at the readings 3 and 4 after the update time 0 would both
  schedule a reload.
\<close>

lemma unsound_rounding_not_spaced:
  "\<not> sound_rounding (\<lambda>x. if x = 1 then 3 else x) \<and>
   debounced [3, 4] (fresh\<lparr>attrs := [''_settings_update_time'' \<mapsto> PFloat 0],
                           float_round := (\<lambda>x. if x = 1 then 3 else x)\<rparr>) = [3, 4] \<and>
   \<not> spaced [3, 4]"
proof -
  have "\<not> mono (\<lambda>x::real. if x = 1 then 3 else x)"
  proof
    assume "mono (\<lambda>x::real. if x = 1 then 3 else x)"
    from monoD[OF this, of 1 2] show False by simp
  qed
  then show ?thesis
    by (simp add: sound_rounding_def delay_reload_settings_def to_float_def set_timeout_def
        fresh_def reload_settings_name_def Let_def)
qed

section \<open>The claims\<close>

subsection \<open>C1: the debounced reload\<close>





subsection \<open>C2: the installed change handlers\<close>

text \<open>
  Claim C2, at an input where the code departs from it. A tree with the one setting
  entry \<^verbatim>\<open>("a", "k", 1)\<close> is loaded from the settings file \<^verbatim>\<open>f\<close> with
  \<^verbatim>\<open>auto_update\<close> true and \<^verbatim>\<open>sparse_update\<close> false while the API is ready: the
  walk registers the shared handler for the entry. The store then comes to hold 7 under
  \<^verbatim>\<open>k\<close> and the handler is invoked: it raises a \<^verbatim>\<open>TypeError\<close> (three arguments
  passed to \<^verbatim>\<open>__delay_reload_settings\<close>, which accepts none) and leaves the bound
  object as it was, the attribute \<^verbatim>\<open>a\<close> still 1. Nothing is reloaded.
\<close>

theorem shared_handler_raises:
  "on_change (snd (load_settings ''f'' (PTuple [PTuple [PStr ''a'', PStr ''k'', PInt 1]]) True False
       (plugin_loaded fresh)))
     = [(''f'', PTuple [PStr ''a'', PStr ''k'', PInt 1],
         Update_handler (PTuple [PTuple [PStr ''a'', PStr ''k'', PInt 1]]) True False)] \<and>
   run_callback (Update_handler (PTuple [PTuple [PStr ''a'', PStr ''k'', PInt 1]]) True False) 10
       ((snd (load_settings ''f'' (PTuple [PTuple [PStr ''a'', PStr ''k'', PInt 1]]) True False
           (plugin_loaded fresh)))\<lparr>stores := (\<lambda>f. [PStr ''k'' \<mapsto> PInt 7])\<rparr>)
     = (Some (TypeError (Wrong_arguments ''__delay_reload_settings'' 3)),
        (plugin_loaded fresh)
          \<lparr>attrs := [''_settings_obj'' \<mapsto> PSettings ''f'', ''a'' \<mapsto> PInt 1],
           on_change := [(''f'', PTuple [PStr ''a'', PStr ''k'', PInt 1],
              Update_handler (PTuple [PTuple [PStr ''a'', PStr ''k'', PInt 1]]) True False)],
           stores := (\<lambda>f. [PStr ''k'' \<mapsto> PInt 7])\<rparr>)"
  by (simp add: eval_defs update_handler_def delay_reload_settings_def)


subsection \<open>C3: values from the store\<close>

text \<open>
  Claim C3, as amended. Take a tree the walk accepts, every setting entry of which is
  bound to a name that \<^verbatim>\<open>setattr\<close> accepts and that is not \<^verbatim>\<open>_settings_obj\<close>,
  and an object whose instance dictionary binds neither
  \<^verbatim>\<open>_DeclarativeSettingsMixin__reload_settings\<close> nor \<^verbatim>\<open>process_setting_entry\<close>.
  A load made while the API is ready raises nothing, and every setting entry
  (attribute, key, default) that no later entry of the walk binds to the same attribute
  leaves the attribute equal to \<^verbatim>\<open>store.get(k, default)\<close>, where \<open>k\<close> is the key
  name, or the attribute name when the key name is \<^verbatim>\<open>''\<close> or \<^verbatim>\<open>Ellipsis\<close>. When
  two entries bind one attribute, the later one wins.
\<close>

theorem store_values_loaded:
  assumes "api_ready s" and "resolve_tree tree s = etree" and "well_formed etree"
    and "list_all bindable (leaf_names etree)"
    and "attrs s ''_DeclarativeSettingsMixin__reload_settings'' = None"
    and "attrs s ''process_setting_entry'' = None"
    and "leaf_entries etree = before @ entry # after"
    and "unpack3 entry = Inr (PStr attribute, key, dflt)"
    and "attribute \<notin> set (map leaf_name after)"
  shows "\<exists>s'. load_settings f tree auto_update sparse_upd s = (None, s') \<and>
           attrs s' attribute =
             Some (store_get (stores s f)
                     (if key = PStr [] \<or> key = PEllipsis then PStr attribute else key) dflt)"
proof -
  have r: "attrs s reload_settings_name = None"
    using assms(5) by (simp add: reload_settings_name_def)
  show ?thesis
    using load_settings_ready[OF assms(1-4) r assms(6), of f auto_update sparse_upd]
      walked_last[OF assms(8,9)] assms(7) leaf_value_unpack(3)[OF assms(8)]
    by (simp add: lookup_key_def)
qed

text \<open>An instance of C3 as amended: the nested entry \<^verbatim>\<open>("b", "", 2)\<close> of the sample
  tree is looked up under its attribute name and receives the stored 9.\<close>

theorem store_values_loaded_witness:
  "api_ready (plugin_loaded sample_host) \<and> well_formed sample_tree \<and>
   list_all bindable (leaf_names sample_tree) \<and>
   attrs (plugin_loaded sample_host) ''_DeclarativeSettingsMixin__reload_settings'' = None \<and>
   attrs (plugin_loaded sample_host) ''process_setting_entry'' = None \<and>
   leaf_entries sample_tree =
     [PTuple [PStr ''a'', PStr ''x'', PInt 1]] @ PTuple [PStr ''b'', PStr [], PInt 2] # [] \<and>
   unpack3 (PTuple [PStr ''b'', PStr [], PInt 2]) = Inr (PStr ''b'', PStr [], PInt 2) \<and>
   fst (load_settings ''f'' sample_tree True True (plugin_loaded sample_host)) = None \<and>
   attrs (snd (load_settings ''f'' sample_tree True True (plugin_loaded sample_host))) ''b''
     = Some (PInt 9)"
proof -
  have 1: "api_ready (plugin_loaded sample_host)" by (simp add: plugin_loaded_def)
  have 5: "attrs (plugin_loaded sample_host) ''_DeclarativeSettingsMixin__reload_settings'' = None"
    and 6: "attrs (plugin_loaded sample_host) ''process_setting_entry'' = None"
    by (rule fresh_attrs)+
  have 8: "unpack3 (PTuple [PStr ''b'', PStr [], PInt 2]) = Inr (PStr ''b'', PStr [], PInt 2)"
    by (simp add: unpack3_def items_def)
  have 9: "''b'' \<notin> set (map leaf_name [])" by simp
  from store_values_loaded[OF 1 sample_resolve sample_wf sample_bindable 5 6 sample_leaves 8 9,
      of "''f''" True True]
  have "fst (load_settings ''f'' sample_tree True True (plugin_loaded sample_host)) = None \<and>
   attrs (snd (load_settings ''f'' sample_tree True True (plugin_loaded sample_host))) ''b''
     = Some (PInt 9)"
    by (auto simp: plugin_loaded_def sample_host_def store_get_def)
  with 1 sample_wf sample_bindable 5 6 sample_leaves 8 show ?thesis by simp
qed

text \<open>
  C3 as stated fails on trees the walk accepts, each time with the store present:
  \<^item> two entries bind one attribute: after \<^verbatim>\<open>(("a", "x", 1), ("a", "y", 2))\<close> with
    neither key stored, \<^verbatim>\<open>a\<close> is 2, whereas \<^verbatim>\<open>store.get("x", 1)\<close> is 1;
  \<^item> an entry is bound to \<^verbatim>\<open>_settings_obj\<close>: after
    \<^verbatim>\<open>(("_settings_obj", "q", None), ("a", "x", 1))\<close> with 7 stored under \<^verbatim>\<open>x\<close>,
    the first entry has replaced the store reference by \<^verbatim>\<open>None\<close> and \<^verbatim>\<open>a\<close> is
    the default 1, not 7;
  \<^item> an entry is bound to a name that \<^verbatim>\<open>setattr\<close> refuses (\<^verbatim>\<open>__class__\<close>,
    \<^verbatim>\<open>__dict__\<close>, \<^verbatim>\<open>__weakref__\<close>): the walk raises and the entry after it stays
    unbound;
  \<^item> the instance dictionary shadows \<^verbatim>\<open>process_setting_entry\<close> or
    \<^verbatim>\<open>_DeclarativeSettingsMixin__reload_settings\<close>, as an earlier load of an entry
    bound to that name leaves it: the load of \<^verbatim>\<open>(("a", "x", 1),)\<close> raises and
    \<^verbatim>\<open>a\<close> stays unbound.
\<close>

theorem store_values_counterexample:
  "api_ready (plugin_loaded fresh) \<and>
   well_formed (PTuple [PTuple [PStr ''a'', PStr ''x'', PInt 1], PTuple [PStr ''a'', PStr ''y'', PInt 2]]) \<and>
   leaf_entries (PTuple [PTuple [PStr ''a'', PStr ''x'', PInt 1], PTuple [PStr ''a'', PStr ''y'', PInt 2]])
     = [PTuple [PStr ''a'', PStr ''x'', PInt 1], PTuple [PStr ''a'', PStr ''y'', PInt 2]] \<and>
   fst (load_settings ''f'' (PTuple [PTuple [PStr ''a'', PStr ''x'', PInt 1], PTuple [PStr ''a'', PStr ''y'', PInt 2]])
          False False (plugin_loaded fresh)) = None \<and>
   attrs (snd (load_settings ''f'' (PTuple [PTuple [PStr ''a'', PStr ''x'', PInt 1], PTuple [PStr ''a'', PStr ''y'', PInt 2]])
          False False (plugin_loaded fresh))) ''_settings_obj'' = Some (PSettings ''f'') \<and>
   attrs (snd (load_settings ''f'' (PTuple [PTuple [PStr ''a'', PStr ''x'', PInt 1], PTuple [PStr ''a'', PStr ''y'', PInt 2]])
          False False (plugin_loaded fresh))) ''a'' = Some (PInt 2) \<and>
   store_get (stores (plugin_loaded fresh) ''f'') (PStr ''x'') (PInt 1) = PInt 1 \<and>
   well_formed (PTuple [PTuple [PStr ''_settings_obj'', PStr ''q'', PNone], PTuple [PStr ''a'', PStr ''x'', PInt 1]]) \<and>
   load_settings ''f'' (PTuple [PTuple [PStr ''_settings_obj'', PStr ''q'', PNone], PTuple [PStr ''a'', PStr ''x'', PInt 1]])
          False False (plugin_loaded sample_host)
     = (None, (plugin_loaded sample_host)\<lparr>attrs := [''_settings_obj'' \<mapsto> PNone, ''a'' \<mapsto> PInt 1]\<rparr>) \<and>
   store_get (stores (plugin_loaded sample_host) ''f'') (PStr ''x'') (PInt 1) = PInt 7 \<and>
   well_formed (PTuple [PTuple [PStr ''__class__'', PStr [], PInt 5], PTuple [PStr ''b'', PStr [], PInt 2]]) \<and>
   load_settings ''f'' (PTuple [PTuple [PStr ''__class__'', PStr [], PInt 5], PTuple [PStr ''b'', PStr [], PInt 2]])
          False False (plugin_loaded fresh)
     = (Some (TypeError (Bad_attribute_value ''__class__'' IntType)),
        (plugin_loaded fresh)\<lparr>attrs := [''_settings_obj'' \<mapsto> PSettings ''f'']\<rparr>) \<and>
   fst (load_settings ''f'' (PTuple [PTuple [PStr ''__dict__'', PStr [], PInt 5]])
          False False (plugin_loaded fresh))
     = Some (TypeError (Bad_attribute_value ''__dict__'' IntType)) \<and>
   fst (load_settings ''f'' (PTuple [PTuple [PStr ''__weakref__'', PStr [], PInt 5]])
          False False (plugin_loaded fresh))
     = Some (AttributeError ''__weakref__'') \<and>
   fst (load_settings ''f'' (PTuple [PTuple [PStr ''process_setting_entry'', PStr [], PInt 5]])
          False False (plugin_loaded fresh)) = None \<and>
   fst (load_settings ''f'' (PTuple [PTuple [PStr ''a'', PStr ''x'', PInt 1]]) False False
          (snd (load_settings ''f'' (PTuple [PTuple [PStr ''process_setting_entry'', PStr [], PInt 5]])
             False False (plugin_loaded fresh))))
     = Some (TypeError (Not_callable IntType)) \<and>
   attrs (snd (load_settings ''f'' (PTuple [PTuple [PStr ''a'', PStr ''x'', PInt 1]]) False False
          (snd (load_settings ''f'' (PTuple [PTuple [PStr ''process_setting_entry'', PStr [], PInt 5]])
             False False (plugin_loaded fresh))))) ''a'' = None \<and>
   fst (load_settings ''f''
          (PTuple [PTuple [PStr ''_DeclarativeSettingsMixin__reload_settings'', PStr [], PInt 5]])
          False False (plugin_loaded fresh)) = None \<and>
   fst (load_settings ''f'' (PTuple [PTuple [PStr ''a'', PStr ''x'', PInt 1]]) False False
          (snd (load_settings ''f''
             (PTuple [PTuple [PStr ''_DeclarativeSettingsMixin__reload_settings'', PStr [], PInt 5]])
             False False (plugin_loaded fresh))))
     = Some (TypeError (Not_callable IntType)) \<and>
   attrs (snd (load_settings ''f'' (PTuple [PTuple [PStr ''a'', PStr ''x'', PInt 1]]) False False
          (snd (load_settings ''f''
             (PTuple [PTuple [PStr ''_DeclarativeSettingsMixin__reload_settings'', PStr [], PInt 5]])
             False False (plugin_loaded fresh))))) ''a'' = None"
  by (simp add: eval_defs well_formed.simps leaf_entries.simps sample_host_def)


subsection \<open>C4: defaults while the store is absent\<close>

text \<open>
  Claim C4, as amended. Take a tree the walk accepts, every setting entry of which is
  bound to a name that \<^verbatim>\<open>setattr\<close> accepts and that is not \<^verbatim>\<open>_settings_obj\<close>,
  and an object whose instance dictionary binds neither
  \<^verbatim>\<open>_DeclarativeSettingsMixin__reload_settings\<close> nor \<^verbatim>\<open>process_setting_entry\<close>.
  A load made while the API is not ready raises nothing, and every setting entry that
  no later entry of the walk binds to the same attribute leaves the attribute bound to
  its default. When two entries bind one attribute, the default of the later one wins.
\<close>

theorem defaults_loaded:
  assumes "\<not> api_ready s" and "resolve_tree tree s = etree" and "well_formed etree"
    and "list_all bindable (leaf_names etree)"
    and "attrs s ''_DeclarativeSettingsMixin__reload_settings'' = None"
    and "attrs s ''process_setting_entry'' = None"
    and "leaf_entries etree = before @ entry # after"
    and "unpack3 entry = Inr (PStr attribute, key, dflt)"
    and "attribute \<notin> set (map leaf_name after)"
  shows "\<exists>s'. load_settings f tree auto_update sparse_upd s = (None, s') \<and>
           attrs s' attribute = Some dflt"
proof -
  have r: "attrs s reload_settings_name = None"
    using assms(5) by (simp add: reload_settings_name_def)
  show ?thesis
    using load_settings_not_ready[OF assms(1-4) r assms(6), of f auto_update sparse_upd]
      walked_last[OF assms(8,9)] assms(7) leaf_value_unpack(2)[OF assms(8)]
    by (simp add: set_timeout_def)
qed

text \<open>An instance of C4 as amended: while the API is not ready the entry
  \<^verbatim>\<open>("b", "", 2)\<close> of the sample tree receives its default 2, although the host
  stores 9.\<close>

theorem defaults_loaded_witness:
  "\<not> api_ready sample_host \<and> well_formed sample_tree \<and>
   list_all bindable (leaf_names sample_tree) \<and>
   attrs sample_host ''_DeclarativeSettingsMixin__reload_settings'' = None \<and>
   attrs sample_host ''process_setting_entry'' = None \<and>
   leaf_entries sample_tree =
     [PTuple [PStr ''a'', PStr ''x'', PInt 1]] @ PTuple [PStr ''b'', PStr [], PInt 2] # [] \<and>
   unpack3 (PTuple [PStr ''b'', PStr [], PInt 2]) = Inr (PStr ''b'', PStr [], PInt 2) \<and>
   fst (load_settings ''f'' sample_tree True True sample_host) = None \<and>
   attrs (snd (load_settings ''f'' sample_tree True True sample_host)) ''b'' = Some (PInt 2)"
proof -
  have 1: "\<not> api_ready sample_host" by (simp add: sample_host_def fresh_def)
  have 5: "attrs sample_host ''_DeclarativeSettingsMixin__reload_settings'' = None"
    and 6: "attrs sample_host ''process_setting_entry'' = None"
    by (rule fresh_attrs)+
  have 8: "unpack3 (PTuple [PStr ''b'', PStr [], PInt 2]) = Inr (PStr ''b'', PStr [], PInt 2)"
    by (simp add: unpack3_def items_def)
  have 9: "''b'' \<notin> set (map leaf_name [])" by simp
  from defaults_loaded[OF 1 sample_resolve sample_wf sample_bindable 5 6 sample_leaves 8 9,
      of "''f''" True True]
  have "fst (load_settings ''f'' sample_tree True True sample_host) = None \<and>
   attrs (snd (load_settings ''f'' sample_tree True True sample_host)) ''b'' = Some (PInt 2)"
    by auto
  with 1 sample_wf sample_bindable 5 6 sample_leaves 8 show ?thesis by simp
qed

text \<open>
  C4 as stated fails on trees the walk accepts, each time with the API not ready:
  \<^item> two entries bind one attribute: after \<^verbatim>\<open>(("a", "", 1), ("a", "", 2))\<close> the
    attribute \<^verbatim>\<open>a\<close> is 2, not the default 1 of the first entry;
  \<^item> an entry is bound to \<^verbatim>\<open>_settings_obj\<close>: in
    \<^verbatim>\<open>(("_settings_obj", "", 5), ("a", "", 1))\<close> the first entry replaces the
    \<^verbatim>\<open>None\<close> by 5, on which \<^verbatim>\<open>get\<close> is then called for the second: an
    exception is raised and \<^verbatim>\<open>a\<close> stays unbound;
  \<^item> an entry is bound to a name that \<^verbatim>\<open>setattr\<close> refuses (\<^verbatim>\<open>__class__\<close>,
    \<^verbatim>\<open>__dict__\<close>, \<^verbatim>\<open>__weakref__\<close>): the walk raises and the entry after it stays
    unbound;
  \<^item> the instance dictionary shadows \<^verbatim>\<open>process_setting_entry\<close> or
    \<^verbatim>\<open>_DeclarativeSettingsMixin__reload_settings\<close>, as an earlier load of an entry
    bound to that name leaves it: the load of \<^verbatim>\<open>(("a", "", 1),)\<close> raises and
    \<^verbatim>\<open>a\<close> stays unbound.
\<close>

theorem defaults_counterexample:
  "\<not> api_ready fresh \<and>
   well_formed (PTuple [PTuple [PStr ''a'', PStr [], PInt 1], PTuple [PStr ''a'', PStr [], PInt 2]]) \<and>
   leaf_entries (PTuple [PTuple [PStr ''a'', PStr [], PInt 1], PTuple [PStr ''a'', PStr [], PInt 2]])
     = [PTuple [PStr ''a'', PStr [], PInt 1], PTuple [PStr ''a'', PStr [], PInt 2]] \<and>
   unpack3 (PTuple [PStr ''a'', PStr [], PInt 1]) = Inr (PStr ''a'', PStr [], PInt 1) \<and>
   fst (load_settings ''f'' (PTuple [PTuple [PStr ''a'', PStr [], PInt 1], PTuple [PStr ''a'', PStr [], PInt 2]])
          True False fresh) = None \<and>
   attrs (snd (load_settings ''f'' (PTuple [PTuple [PStr ''a'', PStr [], PInt 1], PTuple [PStr ''a'', PStr [], PInt 2]])
          True False fresh)) ''a'' = Some (PInt 2) \<and>
   PInt 2 \<noteq> PInt 1 \<and>
   well_formed (PTuple [PTuple [PStr ''_settings_obj'', PStr [], PInt 5], PTuple [PStr ''a'', PStr [], PInt 1]]) \<and>
   load_settings ''f'' (PTuple [PTuple [PStr ''_settings_obj'', PStr [], PInt 5], PTuple [PStr ''a'', PStr [], PInt 1]])
          True False fresh
     = (Some (AttributeError ''get''), fresh\<lparr>attrs := [''_settings_obj'' \<mapsto> PInt 5]\<rparr>) \<and>
   well_formed (PTuple [PTuple [PStr ''__class__'', PStr [], PInt 5], PTuple [PStr ''b'', PStr [], PInt 2]]) \<and>
   load_settings ''f'' (PTuple [PTuple [PStr ''__class__'', PStr [], PInt 5], PTuple [PStr ''b'', PStr [], PInt 2]])
          True False fresh
     = (Some (TypeError (Bad_attribute_value ''__class__'' IntType)),
        fresh\<lparr>attrs := [''_settings_obj'' \<mapsto> PNone]\<rparr>) \<and>
   fst (load_settings ''f'' (PTuple [PTuple [PStr ''__dict__'', PStr [], PInt 5]]) True False fresh)
     = Some (TypeError (Bad_attribute_value ''__dict__'' IntType)) \<and>
   fst (load_settings ''f'' (PTuple [PTuple [PStr ''__weakref__'', PStr [], PInt 5]]) True False fresh)
     = Some (AttributeError ''__weakref__'') \<and>
   fst (load_settings ''f'' (PTuple [PTuple [PStr ''process_setting_entry'', PStr [], PInt 5]])
          True False fresh) = None \<and>
   \<not> api_ready (snd (load_settings ''f'' (PTuple [PTuple [PStr ''process_setting_entry'', PStr [], PInt 5]])
          True False fresh)) \<and>
   fst (load_settings ''f'' (PTuple [PTuple [PStr ''a'', PStr [], PInt 1]]) True False
          (snd (load_settings ''f'' (PTuple [PTuple [PStr ''process_setting_entry'', PStr [], PInt 5]])
             True False fresh)))
     = Some (TypeError (Not_callable IntType)) \<and>
   attrs (snd (load_settings ''f'' (PTuple [PTuple [PStr ''a'', PStr [], PInt 1]]) True False
          (snd (load_settings ''f'' (PTuple [PTuple [PStr ''process_setting_entry'', PStr [], PInt 5]])
             True False fresh)))) ''a'' = None \<and>
   fst (load_settings ''f''
          (PTuple [PTuple [PStr ''_DeclarativeSettingsMixin__reload_settings'', PStr [], PInt 5]])
          True False fresh) = None \<and>
   fst (load_settings ''f'' (PTuple [PTuple [PStr ''a'', PStr [], PInt 1]]) True False
          (snd (load_settings ''f''
             (PTuple [PTuple [PStr ''_DeclarativeSettingsMixin__reload_settings'', PStr [], PInt 5]])
             True False fresh)))
     = Some (TypeError (Not_callable IntType)) \<and>
   attrs (snd (load_settings ''f'' (PTuple [PTuple [PStr ''a'', PStr [], PInt 1]]) True False
          (snd (load_settings ''f''
             (PTuple [PTuple [PStr ''_DeclarativeSettingsMixin__reload_settings'', PStr [], PInt 5]])
             True False fresh)))) ''a'' = None"
  by (simp add: eval_defs well_formed.simps leaf_entries.simps)


subsection \<open>C5: malformed tree nodes\<close>

text \<open>
  Claim C5, at an input where the code departs from it. The tree \<^verbatim>\<open>(5, ("a", "", 1))\<close>
  has the node 5, which is neither a setting entry nor a tuple. Loading it raises a
  \<^verbatim>\<open>TypeError\<close> and halts (the entry after the node is not processed), but the
  error is the one \<^verbatim>\<open>len\<close> raises inside \<^verbatim>\<open>_is_setting_entry\<close>, which names the
  type only; the branch that formats the type and a dump of the bad entry is not
  reached.
\<close>

theorem unsized_node_error:
  "load_settings ''f'' (PTuple [PInt 5, PTuple [PStr ''a'', PStr [], PInt 1]]) True False
       (plugin_loaded fresh)
   = (Some (TypeError (No_len IntType)),
      (plugin_loaded fresh)\<lparr>attrs := [''_settings_obj'' \<mapsto> PSettings ''f'']\<rparr>)"
  by (simp add: eval_defs)


subsection \<open>C6: the retry while the API is not ready\<close>

text \<open>
  Claim C6, as amended. Take a tree the walk accepts, every setting entry of which is
  bound to a name that \<^verbatim>\<open>setattr\<close> accepts and that is neither
  \<^verbatim>\<open>_settings_obj\<close> nor one of \<^verbatim>\<open>load_settings\<close>,
  \<^verbatim>\<open>process_setting_entry\<close> and \<^verbatim>\<open>_DeclarativeSettingsMixin__reload_settings\<close>,
  and an object whose instance dictionary binds none of these three method names.
  Whenever \<^verbatim>\<open>load_settings\<close> is called on them while the API is not ready, it
  raises nothing, assigns the defaults of the setting entries in walk order, and
  schedules with delay 500 one callback, closed over the same settings file name, the
  resolved tree and the two flags. Running that callback is \<^verbatim>\<open>load_settings\<close> on
  those arguments: while the API is still not ready it raises nothing and schedules the
  same callback with delay 500 again, and once the API is ready it schedules nothing.
\<close>

theorem not_ready_retry:
  assumes "\<not> api_ready s" and "resolve_tree tree s = etree" and "well_formed etree"
    and "list_all bindable (leaf_names etree)"
    and "set (leaf_names etree) \<inter> set method_names = {}"
    and "list_all (\<lambda>n. attrs s n = None) method_names"
  shows "\<exists>s'. load_settings f tree auto_update sparse_upd s = (None, s') \<and>
           attrs s' = assign_leaves PNone (stores s) (leaf_entries etree)
                        ((attrs s)(''_settings_obj'' \<mapsto> PNone)) \<and>
           timeouts s' = timeouts s @ [(Loader f etree auto_update sparse_upd, 500)] \<and>
           \<not> api_ready s' \<and>
           run_callback (Loader f etree auto_update sparse_upd) now s' =
             load_settings f etree auto_update sparse_upd s' \<and>
           fst (run_callback (Loader f etree auto_update sparse_upd) now s') = None \<and>
           timeouts (snd (run_callback (Loader f etree auto_update sparse_upd) now s'))
             = timeouts s' @ [(Loader f etree auto_update sparse_upd, 500)] \<and>
           timeouts (snd (run_callback (Loader f etree auto_update sparse_upd) now (plugin_loaded s')))
             = timeouts s'"
proof -
  have un: "attrs s ''load_settings'' = None" "attrs s ''process_setting_entry'' = None"
    "attrs s reload_settings_name = None"
    using assms(6) by (simp_all add: method_names_def reload_settings_name_def)
  have nn: "''load_settings'' \<notin> set (leaf_names etree)"
    "''process_setting_entry'' \<notin> set (leaf_names etree)"
    "reload_settings_name \<notin> set (leaf_names etree)"
    using assms(5) by (auto simp: method_names_def reload_settings_name_def)
  have r: "resolve_tree etree s' = etree" for s'
    using well_formed_not_None[OF assms(3)] by (simp add: resolve_tree_def)
  have t: "timeouts (snd (run_callback (Loader f etree auto_update sparse_upd) now (plugin_loaded s')))
      = timeouts s'" for s'
    using run_loader_timeouts_ready[of "plugin_loaded s'" f etree auto_update sparse_upd now]
    by (simp add: plugin_loaded_def)
  obtain s' where s': "load_settings f tree auto_update sparse_upd s = (None, s')"
    "attrs s' = assign_leaves PNone (stores s) (leaf_entries etree)
                        ((attrs s)(''_settings_obj'' \<mapsto> PNone))"
    "timeouts s' = timeouts s @ [(Loader f etree auto_update sparse_upd, 500)]"
    "\<not> api_ready s'"
    using load_settings_not_ready[OF assms(1-4) un(3,2), of f auto_update sparse_upd] assms(1)
    by (simp add: set_timeout_def walked_def)
  have un': "attrs s' ''load_settings'' = None" "attrs s' ''process_setting_entry'' = None"
    "attrs s' reload_settings_name = None"
    using s'(2) nn un
    by (simp_all add: assign_leaves_other leaf_names_def reload_settings_name_def)
  have run: "run_callback (Loader f etree auto_update sparse_upd) now s' =
             load_settings f etree auto_update sparse_upd s'"
    using un'(1) by (simp add: shadowed_def)
  have again: "fst (load_settings f etree auto_update sparse_upd s') = None \<and>
      timeouts (snd (load_settings f etree auto_update sparse_upd s'))
        = timeouts s' @ [(Loader f etree auto_update sparse_upd, 500)]"
    using load_settings_not_ready[OF s'(4) r assms(3,4) un'(3,2), of f auto_update sparse_upd]
    by (simp add: set_timeout_def walked_def)
  from s' run again t show ?thesis by simp
qed

text \<open>An instance of C6 as amended, on the sample tree: both defaults are assigned and
  the retry is scheduled with delay 500.\<close>

theorem not_ready_retry_witness:
  "\<not> api_ready sample_host \<and> well_formed sample_tree \<and>
   list_all bindable (leaf_names sample_tree) \<and>
   set (leaf_names sample_tree) \<inter> set method_names = {} \<and>
   list_all (\<lambda>n. attrs sample_host n = None) method_names \<and>
   fst (load_settings ''f'' sample_tree True False sample_host) = None \<and>
   timeouts (snd (load_settings ''f'' sample_tree True False sample_host))
     = [(Loader ''f'' sample_tree True False, 500)] \<and>
   attrs (snd (load_settings ''f'' sample_tree True False sample_host))
     = [''_settings_obj'' \<mapsto> PNone, ''a'' \<mapsto> PInt 1, ''b'' \<mapsto> PInt 2]"
proof -
  have 1: "\<not> api_ready sample_host" by (simp add: sample_host_def fresh_def)
  have 5: "set (leaf_names sample_tree) \<inter> set method_names = {}"
    by (simp add: sample_names method_names_def)
  have 6: "list_all (\<lambda>n. attrs sample_host n = None) method_names"
    by (simp add: method_names_def fresh_attrs)
  from not_ready_retry[OF 1 sample_resolve sample_wf sample_bindable 5 6, of "''f''" True False 0]
  have "fst (load_settings ''f'' sample_tree True False sample_host) = None \<and>
   timeouts (snd (load_settings ''f'' sample_tree True False sample_host))
     = [(Loader ''f'' sample_tree True False, 500)] \<and>
   attrs (snd (load_settings ''f'' sample_tree True False sample_host))
     = [''_settings_obj'' \<mapsto> PNone, ''a'' \<mapsto> PInt 1, ''b'' \<mapsto> PInt 2]"
    by (auto simp: sample_leaves assign_leaves_def assign_leaf_def leaf_name_def leaf_value_def
        items_def sample_host_def fresh_def)
  with 1 sample_wf sample_bindable 5 6 show ?thesis by simp
qed

text \<open>
  C6 as stated fails in each of these calls, all made while the API is not ready:
  \<^item> a tree the walk rejects: \<^verbatim>\<open>load_settings("f", ([],))\<close> raises the
    \<^verbatim>\<open>TypeError\<close> for the bad entry \<^verbatim>\<open>[]\<close> out of the walk, before
    \<^verbatim>\<open>set_timeout\<close> is reached, and no retry is scheduled;
  \<^item> an entry bound to a name that \<^verbatim>\<open>setattr\<close> refuses (\<^verbatim>\<open>__class__\<close>,
    \<^verbatim>\<open>__dict__\<close>, \<^verbatim>\<open>__weakref__\<close>), or bound to \<^verbatim>\<open>_settings_obj\<close> with
    another entry after it: the walk raises and no retry is scheduled;
  \<^item> an instance dictionary that binds \<^verbatim>\<open>process_setting_entry\<close> or
    \<^verbatim>\<open>_DeclarativeSettingsMixin__reload_settings\<close> before the call: the call raises a
    \<^verbatim>\<open>TypeError\<close> and no retry is scheduled; one that binds \<^verbatim>\<open>load_settings\<close>:
    the method, called on the object, schedules its retry, and the retry raises;
  \<^item> an entry bound to \<^verbatim>\<open>load_settings\<close>, \<^verbatim>\<open>process_setting_entry\<close> or
    \<^verbatim>\<open>_DeclarativeSettingsMixin__reload_settings\<close>: the call schedules its retry,
    but the instance dictionary now shadows the method, so the retry raises a
    \<^verbatim>\<open>TypeError\<close> and schedules nothing: the retry does not repeat. The state the
    retry runs in is also one whose instance dictionary binds a method name.
\<close>

theorem not_ready_retry_counterexample:
  "\<not> api_ready fresh \<and>
   load_settings ''f'' (PTuple [PList []]) True False fresh
     = (Some (TypeError (Bad_setting_entry ListType (PList []))),
        fresh\<lparr>attrs := [''_settings_obj'' \<mapsto> PNone]\<rparr>) \<and>
   timeouts (fresh\<lparr>attrs := [''_settings_obj'' \<mapsto> PNone]\<rparr>) = [] \<and>
   well_formed (PTuple [PTuple [PStr ''__class__'', PStr [], PInt 5]]) \<and>
   load_settings ''f'' (PTuple [PTuple [PStr ''__class__'', PStr [], PInt 5]]) True False fresh
     = (Some (TypeError (Bad_attribute_value ''__class__'' IntType)),
        fresh\<lparr>attrs := [''_settings_obj'' \<mapsto> PNone]\<rparr>) \<and>
   fst (load_settings ''f'' (PTuple [PTuple [PStr ''__dict__'', PStr [], PInt 5]]) True False fresh)
     = Some (TypeError (Bad_attribute_value ''__dict__'' IntType)) \<and>
   timeouts (snd (load_settings ''f'' (PTuple [PTuple [PStr ''__dict__'', PStr [], PInt 5]])
       True False fresh)) = [] \<and>
   fst (load_settings ''f'' (PTuple [PTuple [PStr ''__weakref__'', PStr [], PInt 5]]) True False fresh)
     = Some (AttributeError ''__weakref__'') \<and>
   timeouts (snd (load_settings ''f'' (PTuple [PTuple [PStr ''__weakref__'', PStr [], PInt 5]])
       True False fresh)) = [] \<and>
   fst (load_settings ''f'' (PTuple [PTuple [PStr ''a'', PStr [], PInt 1]]) True False
          (fresh\<lparr>attrs := [''process_setting_entry'' \<mapsto> PInt 5]\<rparr>))
     = Some (TypeError (Not_callable IntType)) \<and>
   timeouts (snd (load_settings ''f'' (PTuple [PTuple [PStr ''a'', PStr [], PInt 1]]) True False
          (fresh\<lparr>attrs := [''process_setting_entry'' \<mapsto> PInt 5]\<rparr>))) = [] \<and>
   fst (load_settings ''f'' (PTuple [PTuple [PStr ''a'', PStr [], PInt 1]]) True False
          (fresh\<lparr>attrs := [''_DeclarativeSettingsMixin__reload_settings'' \<mapsto> PInt 5]\<rparr>))
     = Some (TypeError (Not_callable IntType)) \<and>
   timeouts (snd (load_settings ''f'' (PTuple [PTuple [PStr ''a'', PStr [], PInt 1]]) True False
          (fresh\<lparr>attrs := [''_DeclarativeSettingsMixin__reload_settings'' \<mapsto> PInt 5]\<rparr>))) = [] \<and>
   fst (load_settings ''f'' (PTuple [PTuple [PStr ''a'', PStr [], PInt 1]]) True False
          (fresh\<lparr>attrs := [''load_settings'' \<mapsto> PInt 5]\<rparr>)) = None \<and>
   timeouts (snd (load_settings ''f'' (PTuple [PTuple [PStr ''a'', PStr [], PInt 1]]) True False
          (fresh\<lparr>attrs := [''load_settings'' \<mapsto> PInt 5]\<rparr>)))
     = [(Loader ''f'' (PTuple [PTuple [PStr ''a'', PStr [], PInt 1]]) True False, 500)] \<and>
   fst (run_callback (Loader ''f'' (PTuple [PTuple [PStr ''a'', PStr [], PInt 1]]) True False) 0
          (snd (load_settings ''f'' (PTuple [PTuple [PStr ''a'', PStr [], PInt 1]]) True False
             (fresh\<lparr>attrs := [''load_settings'' \<mapsto> PInt 5]\<rparr>))))
     = Some (TypeError (Not_callable IntType)) \<and>
   timeouts (snd (run_callback (Loader ''f'' (PTuple [PTuple [PStr ''a'', PStr [], PInt 1]]) True False) 0
          (snd (load_settings ''f'' (PTuple [PTuple [PStr ''a'', PStr [], PInt 1]]) True False
             (fresh\<lparr>attrs := [''load_settings'' \<mapsto> PInt 5]\<rparr>)))))
     = [(Loader ''f'' (PTuple [PTuple [PStr ''a'', PStr [], PInt 1]]) True False, 500)] \<and>
   well_formed (PTuple [PTuple [PStr ''_settings_obj'', PStr [], PInt 5], PTuple [PStr ''a'', PStr [], PInt 1]]) \<and>
   load_settings ''f'' (PTuple [PTuple [PStr ''_settings_obj'', PStr [], PInt 5], PTuple [PStr ''a'', PStr [], PInt 1]])
          True False fresh
     = (Some (AttributeError ''get''), fresh\<lparr>attrs := [''_settings_obj'' \<mapsto> PInt 5]\<rparr>) \<and>
   well_formed (PTuple [PTuple [PStr ''load_settings'', PStr [], PInt 5]]) \<and>
   load_settings ''f'' (PTuple [PTuple [PStr ''load_settings'', PStr [], PInt 5]]) True False fresh
     = (None, fresh\<lparr>attrs := [''_settings_obj'' \<mapsto> PNone, ''load_settings'' \<mapsto> PInt 5],
                    timeouts := [(Loader ''f'' (PTuple [PTuple [PStr ''load_settings'', PStr [], PInt 5]])
                                   True False, 500)]\<rparr>) \<and>
   run_callback (Loader ''f'' (PTuple [PTuple [PStr ''load_settings'', PStr [], PInt 5]]) True False) 0
       (fresh\<lparr>attrs := [''_settings_obj'' \<mapsto> PNone, ''load_settings'' \<mapsto> PInt 5],
              timeouts := [(Loader ''f'' (PTuple [PTuple [PStr ''load_settings'', PStr [], PInt 5]])
                              True False, 500)]\<rparr>)
     = (Some (TypeError (Not_callable IntType)),
        fresh\<lparr>attrs := [''_settings_obj'' \<mapsto> PNone, ''load_settings'' \<mapsto> PInt 5],
              timeouts := [(Loader ''f'' (PTuple [PTuple [PStr ''load_settings'', PStr [], PInt 5]])
                              True False, 500)]\<rparr>) \<and>
   load_settings ''f'' (PTuple [PTuple [PStr ''process_setting_entry'', PStr [], PInt 5]]) True False fresh
     = (None, fresh\<lparr>attrs := [''_settings_obj'' \<mapsto> PNone, ''process_setting_entry'' \<mapsto> PInt 5],
                    timeouts := [(Loader ''f'' (PTuple [PTuple [PStr ''process_setting_entry'', PStr [], PInt 5]])
                                   True False, 500)]\<rparr>) \<and>
   run_callback (Loader ''f'' (PTuple [PTuple [PStr ''process_setting_entry'', PStr [], PInt 5]]) True False) 0
       (fresh\<lparr>attrs := [''_settings_obj'' \<mapsto> PNone, ''process_setting_entry'' \<mapsto> PInt 5],
              timeouts := [(Loader ''f'' (PTuple [PTuple [PStr ''process_setting_entry'', PStr [], PInt 5]])
                              True False, 500)]\<rparr>)
     = (Some (TypeError (Not_callable IntType)),
        fresh\<lparr>attrs := [''_settings_obj'' \<mapsto> PNone, ''process_setting_entry'' \<mapsto> PInt 5],
              timeouts := [(Loader ''f'' (PTuple [PTuple [PStr ''process_setting_entry'', PStr [], PInt 5]])
                              True False, 500)]\<rparr>) \<and>
   load_settings ''f''
       (PTuple [PTuple [PStr ''_DeclarativeSettingsMixin__reload_settings'', PStr [], PInt 5]])
       True False fresh
     = (None, fresh\<lparr>attrs := [''_settings_obj'' \<mapsto> PNone,
                               ''_DeclarativeSettingsMixin__reload_settings'' \<mapsto> PInt 5],
                    timeouts := [(Loader ''f''
                       (PTuple [PTuple [PStr ''_DeclarativeSettingsMixin__reload_settings'', PStr [], PInt 5]])
                       True False, 500)]\<rparr>) \<and>
   run_callback (Loader ''f''
          (PTuple [PTuple [PStr ''_DeclarativeSettingsMixin__reload_settings'', PStr [], PInt 5]])
          True False) 0
       (fresh\<lparr>attrs := [''_settings_obj'' \<mapsto> PNone,
                         ''_DeclarativeSettingsMixin__reload_settings'' \<mapsto> PInt 5],
              timeouts := [(Loader ''f''
                 (PTuple [PTuple [PStr ''_DeclarativeSettingsMixin__reload_settings'', PStr [], PInt 5]])
                 True False, 500)]\<rparr>)
     = (Some (TypeError (Not_callable IntType)),
        fresh\<lparr>attrs := [''_settings_obj'' \<mapsto> PNone,
                         ''_DeclarativeSettingsMixin__reload_settings'' \<mapsto> PInt 5],
              timeouts := [(Loader ''f''
                 (PTuple [PTuple [PStr ''_DeclarativeSettingsMixin__reload_settings'', PStr [], PInt 5]])
                 True False, 500)]\<rparr>)"
  by (simp add: eval_defs well_formed.simps fun_upd_twist)


subsection \<open>C7: the store reference\<close>





subsection \<open>C8: termination of the walk\<close>

text \<open>
  Claim C8. For every finite, acyclic entry tree the recursive walk of one load or
  reload terminates: a recursion depth of one more than the nesting depth of the tree
  is enough for the walk to finish, with the result of \<open>load_entry\<close> (a returned
  state or a raised error), whatever the closure variables and the state are. Every
  value of \<open>pyval\<close> is a finite tree, so no walk of the model recurses without bound.
\<close>

theorem walk_terminates:
  "load_entry_fuel (Suc (depth tree)) w tree s = Some (load_entry w tree s)"
  using fuel_enough(1)[of tree "Suc (depth tree)" w s] by simp


subsection \<open>C9: the empty tree\<close>

text \<open>
  Claim C9, as amended. A call of \<^verbatim>\<open>load_settings\<close> whose tree resolves to the empty
  tuple (given as such, or left out while \<^verbatim>\<open>setting_entries\<close> is the declared
  default), on an object whose instance dictionary does not bind
  \<^verbatim>\<open>_DeclarativeSettingsMixin__reload_settings\<close>, raises nothing, registers no
  change handler and assigns no attribute but \<^verbatim>\<open>_settings_obj\<close>, which becomes the
  store when the API is ready and \<^verbatim>\<open>None\<close> when it is not.
\<close>

theorem empty_tree_loads:
  assumes "resolve_tree tree s = PTuple []"
    and "attrs s ''_DeclarativeSettingsMixin__reload_settings'' = None"
    and "load_settings f tree a sp s = (r, s')"
  shows "r = None \<and> on_change s' = on_change s \<and>
         attrs s' = (attrs s)(''_settings_obj'' \<mapsto> (if api_ready s then PSettings f else PNone))"
proof -
  have "attrs s reload_settings_name = None"
    using assms(2) by (simp add: reload_settings_name_def)
  from assms(3)[unfolded load_settings_empty[OF assms(1) this]] show ?thesis
    by (auto simp: set_timeout_def)
qed

text \<open>An instance of C9 as amended: the tree left out on a fresh object, whose class
  declares the default \<^verbatim>\<open>setting_entries = ()\<close>.\<close>

theorem empty_tree_loads_witness:
  "resolve_tree PNone fresh = PTuple [] \<and>
   attrs fresh ''_DeclarativeSettingsMixin__reload_settings'' = None \<and>
   fst (load_settings ''Preferences.sublime-settings'' PNone True False fresh) = None \<and>
   on_change (snd (load_settings ''Preferences.sublime-settings'' PNone True False fresh)) = [] \<and>
   attrs (snd (load_settings ''Preferences.sublime-settings'' PNone True False fresh))
     = [''_settings_obj'' \<mapsto> PNone]"
proof -
  have r: "resolve_tree PNone fresh = PTuple []"
    by (simp add: resolve_tree_def get_setting_entries_def fresh_def)
  have u: "attrs fresh ''_DeclarativeSettingsMixin__reload_settings'' = None"
    by (rule fresh_attrs)
  have "load_settings ''Preferences.sublime-settings'' PNone True False fresh =
     (fst (load_settings ''Preferences.sublime-settings'' PNone True False fresh),
      snd (load_settings ''Preferences.sublime-settings'' PNone True False fresh))" by simp
  from empty_tree_loads[OF r u this] r u show ?thesis by (simp add: fresh_def)
qed

text \<open>
  C9 as stated fails in two ways. The call does assign an attribute: on a fresh object,
  which has no \<^verbatim>\<open>_settings_obj\<close>, the attribute exists afterwards. And the call can
  raise: after a load that bound a setting entry to
  \<^verbatim>\<open>_DeclarativeSettingsMixin__reload_settings\<close>, the instance dictionary shadows
  the method, and \<^verbatim>\<open>load_settings\<close> with the empty tuple raises a \<^verbatim>\<open>TypeError\<close>
  when it calls it.
\<close>

theorem empty_tree_loads_counterexample:
  "attrs fresh ''_settings_obj'' = None \<and>
   attrs (snd (load_settings ''f'' (PTuple []) True False fresh)) ''_settings_obj'' = Some PNone \<and>
   fst (load_settings ''f''
          (PTuple [PTuple [PStr ''_DeclarativeSettingsMixin__reload_settings'', PStr [], PInt 5]])
          True False (plugin_loaded fresh)) = None \<and>
   fst (load_settings ''f'' (PTuple []) True False
          (snd (load_settings ''f''
             (PTuple [PTuple [PStr ''_DeclarativeSettingsMixin__reload_settings'', PStr [], PInt 5]])
             True False (plugin_loaded fresh))))
     = Some (TypeError (Not_callable IntType))"
  by (simp add: eval_defs)


subsection \<open>C10: leaf detection\<close>




end
